theory Spec2Isabelle
  imports Main "HOL-Library.Sublist"
begin

section \<open>JavaScript values\<close>

text \<open>
  The pre-rendering pipeline of \<^verbatim>\<open>node/prerender.ts\<close> handles values of type
  \<^verbatim>\<open>unknown\<close> that user hooks return. They are modelled by a datatype of JavaScript
  values. A plain object (\<open>JObj\<close>) is an association list in key insertion order, an
  object that is not plain (a class instance such as a \<^verbatim>\<open>Date\<close>) is \<open>JInst\<close>, and a
  function value is \<open>JFun\<close> with an identifier that an environment maps to its behaviour.
  Numbers are integers here: only their truthiness is ever inspected.
\<close>

datatype jsval =
    JUndefined
  | JNull
  | JBool bool
  | JNum int
  | JStr string
  | JArr "jsval list"
  | JObj "(string \<times> jsval) list"
  | JInst "(string \<times> jsval) list"
  | JFun nat

type_synonym obj = "(string \<times> jsval) list"

fun typeof :: "jsval \<Rightarrow> string" where
  "typeof JUndefined = ''undefined''"
| "typeof JNull = ''object''"
| "typeof (JBool b) = ''boolean''"
| "typeof (JNum n) = ''number''"
| "typeof (JStr s) = ''string''"
| "typeof (JArr xs) = ''object''"
| "typeof (JObj kvs) = ''object''"
| "typeof (JInst kvs) = ''object''"
| "typeof (JFun n) = ''function''"

fun truthy :: "jsval \<Rightarrow> bool" where
  "truthy JUndefined = False"
| "truthy JNull = False"
| "truthy (JBool b) = b"
| "truthy (JNum n) = (n \<noteq> 0)"
| "truthy (JStr s) = (s \<noteq> [])"
| "truthy (JArr xs) = True"
| "truthy (JObj kvs) = True"
| "truthy (JInst kvs) = True"
| "truthy (JFun n) = True"

text \<open>The own enumerable properties of a value, empty for a primitive.\<close>

fun props :: "jsval \<Rightarrow> obj" where
  "props (JObj kvs) = kvs"
| "props (JInst kvs) = kvs"
| "props v = []"

text \<open>\<^verbatim>\<open>o[k]\<close>: the value stored under a key, \<^verbatim>\<open>undefined\<close> when the key is absent.\<close>

definition getProp :: "obj \<Rightarrow> string \<Rightarrow> jsval" where
  "getProp kvs k = (case map_of kvs k of None \<Rightarrow> JUndefined | Some v \<Rightarrow> v)"

text \<open>
  \<^verbatim>\<open>o[k] = v\<close>: an existing key keeps its position and gets the new value, a new key is
  appended.
\<close>

fun setProp :: "'k \<Rightarrow> 'v \<Rightarrow> ('k \<times> 'v) list \<Rightarrow> ('k \<times> 'v) list" where
  "setProp k v [] = [(k, v)]"
| "setProp k v (kv # kvs) = (if fst kv = k then (k, v) # kvs else kv # setProp k v kvs)"

definition objectKeys :: "jsval \<Rightarrow> string list" where
  "objectKeys v = map fst (props v)"

definition strOf :: "jsval \<Rightarrow> string" where
  "strOf v = (case v of JStr s \<Rightarrow> s | _ \<Rightarrow> [])"

definition startsWith :: "string \<Rightarrow> string \<Rightarrow> bool" where
  "startsWith s p = prefix p s"

section \<open>Helpers of the \<^verbatim>\<open>utils\<close> directory\<close>

text \<open>
  \<^verbatim>\<open>prerender.ts\<close> imports its assertion and object helpers from \<^verbatim>\<open>./utils\<close>, whose
  files are not among the sources at hand. Each helper is given here the meaning that the
  call sites and the specification fix.
\<close>

text \<open>
  Modelled from the spec: \<^verbatim>\<open>isPlainObject\<close> (utils/isPlainObject), "a plain key/value
  record (not an array, not a primitive)".
\<close>

definition isPlainObject :: "jsval \<Rightarrow> bool" where
  "isPlainObject v = (case v of JObj kvs \<Rightarrow> True | _ \<Rightarrow> False)"

text \<open>Modelled from the spec: \<^verbatim>\<open>isCallable\<close> (utils/isCallable), the value is a function.\<close>

definition isCallable :: "jsval \<Rightarrow> bool" where
  "isCallable v = (case v of JFun n \<Rightarrow> True | _ \<Rightarrow> False)"

text \<open>
  Modelled from the spec: \<^verbatim>\<open>hasProp(obj, prop)\<close> (utils/hasProp), the object carries
  the key; \<^verbatim>\<open>hasProp(obj, prop, 'string')\<close>, the key is there and holds a string.
\<close>

definition hasProp :: "jsval \<Rightarrow> string \<Rightarrow> bool" where
  "hasProp v k = (map_of (props v) k \<noteq> None)"

definition hasPropString :: "jsval \<Rightarrow> string \<Rightarrow> bool" where
  "hasPropString v k = (hasProp v k \<and> typeof (getProp (props v) k) = ''string'')"

text \<open>
  Modelled from the spec: \<^verbatim>\<open>hasProp(obj, prop, 'object')\<close> (utils/hasProp). The
  normalizer calls it on \<^verbatim>\<open>pageContext\<close> right after defaulting that key to
  \<^verbatim>\<open>null\<close>, and its caller asserts \<^verbatim>\<open>pageContext === null || isPlainObject(pageContext)\<close>
  on what passed; the specification says that \<^verbatim>\<open>pageContext\<close> "must be a plain
  key/value record (not an array, not a primitive)". So the check holds for \<^verbatim>\<open>null\<close>
  and for a plain object, and for nothing else.
\<close>

definition hasPropObject :: "jsval \<Rightarrow> string \<Rightarrow> bool" where
  "hasPropObject v k =
     (hasProp v k \<and> (getProp (props v) k = JNull \<or> isPlainObject (getProp (props v) k)))"

text \<open>
  Modelled from the spec: \<^verbatim>\<open>objectAssign(target, source)\<close> (utils/objectAssign), the
  shallow merge of \<^verbatim>\<open>Object.assign\<close>: every key of the source is written into the
  target, in the source's order.
\<close>

definition objectAssign :: "obj \<Rightarrow> obj \<Rightarrow> obj" where
  "objectAssign target source = fold (\<lambda>kv. setProp (fst kv) (snd kv)) source target"

section \<open>Errors\<close>

text \<open>
  \<^verbatim>\<open>assertUsage(cond, msg)\<close> throws a usage error with the message when the condition
  is falsy, \<^verbatim>\<open>assert(cond)\<close> throws an internal error, and \<^verbatim>\<open>throwPrerenderError\<close>
  rethrows what a user hook threw. \<open>IllTyped\<close> ends a run in which a hook has put,
  under a key that \<^verbatim>\<open>prerender.ts\<close> reads with a declared type, a value that is not of
  this type: what JavaScript does from there on is not followed.
\<close>

datatype error =
    UsageError string
  | AssertionFailed
  | HookError jsval
  | IllTyped

section \<open>The hook normalizer\<close>

definition errMsg1 :: "string \<Rightarrow> string" where
  "errMsg1 prerenderSourceFile =
     ''The `prerender()` hook defined in `'' @ prerenderSourceFile @ ''` returned an invalid value''"

definition errMsg2 :: string where
  "errMsg2 =
     ''Make sure your `prerender()` hook returns an object `{ url, pageContext }` or an array of such objects.''"

definition invalidPageContextMsg :: "string \<Rightarrow> string" where
  "invalidPageContextMsg prerenderSourceFile =
     ''The `prerender()` hook exported by '' @ prerenderSourceFile
     @ '' returned an invalid `pageContext` value: make sure `pageContext` is a plain JavaScript object.''"

text \<open>
  \<^verbatim>\<open>normalize\<close>, the inner function of \<^verbatim>\<open>normalizePrerenderResult\<close>. The source writes
  \<^verbatim>\<open>prerenderElement['pageContext'] = null\<close> into its argument and returns that same
  object, so the model passes the state explicitly: the first component is the element as
  the call leaves it, the second is what the call returns or throws.
\<close>

definition normalize :: "string \<Rightarrow> jsval \<Rightarrow> jsval \<times> (error + jsval)" where
  "normalize prerenderSourceFile prerenderElement =
     (if typeof prerenderElement = ''string'' then
        (prerenderElement, Inr (JObj [(''url'', prerenderElement), (''pageContext'', JNull)]))
      else if \<not> isPlainObject prerenderElement then
        (prerenderElement, Inl (UsageError (errMsg1 prerenderSourceFile @ ''. '' @ errMsg2)))
      else if \<not> hasProp prerenderElement ''url'' then
        (prerenderElement,
         Inl (UsageError (errMsg1 prerenderSourceFile @ '': `url` is missing. '' @ errMsg2)))
      else if \<not> hasPropString prerenderElement ''url'' then
        (prerenderElement,
         Inl (UsageError (errMsg1 prerenderSourceFile
            @ '': `url` should be a string (but we got `typeof url === '' @ [CHR 0x22]
            @ typeof (getProp (props prerenderElement) ''url'') @ [CHR 0x22] @ ''`).'')))
      else if \<not> startsWith (strOf (getProp (props prerenderElement) ''url'')) ''/'' then
        (prerenderElement,
         Inl (UsageError (errMsg1 prerenderSourceFile
            @ '': the `url` with value `'' @ strOf (getProp (props prerenderElement) ''url'')
            @ ''` doesn't start with `/`. Make sure each URL starts with `/`.'')))
      else
        (case find (\<lambda>key. \<not> (key = ''url'' \<or> key = ''pageContext'')) (objectKeys prerenderElement) of
           Some key \<Rightarrow>
             (prerenderElement,
              Inl (UsageError (errMsg1 prerenderSourceFile
                 @ '': unexpected object key `'' @ key @ ''` '' @ errMsg2)))
         | None \<Rightarrow>
             (let prerenderElement' =
                (if \<not> hasProp prerenderElement ''pageContext''
                 then JObj (setProp ''pageContext'' JNull (props prerenderElement))
                 else prerenderElement)
              in if \<not> hasPropObject prerenderElement' ''pageContext'' then
                   (prerenderElement',
                    Inl (UsageError (invalidPageContextMsg prerenderSourceFile)))
                 else (prerenderElement', Inr prerenderElement'))))"

text \<open>
  \<^verbatim>\<open>prerenderResult.map(normalize)\<close>: the elements are normalized from left to right
  and the first throw ends the loop, leaving the later elements untouched.
\<close>

fun normalizeEach :: "string \<Rightarrow> jsval list \<Rightarrow> jsval list \<times> (error + jsval list)" where
  "normalizeEach prerenderSourceFile [] = ([], Inr [])"
| "normalizeEach prerenderSourceFile (x # xs) =
     (case normalize prerenderSourceFile x of
        (x', Inl e) \<Rightarrow> (x' # xs, Inl e)
      | (x', Inr y) \<Rightarrow>
          (case normalizeEach prerenderSourceFile xs of
             (xs', Inl e) \<Rightarrow> (x' # xs', Inl e)
           | (xs', Inr ys) \<Rightarrow> (x' # xs', Inr (y # ys))))"

definition normalizePrerenderResult :: "jsval \<Rightarrow> string \<Rightarrow> jsval \<times> (error + jsval list)" where
  "normalizePrerenderResult prerenderResult prerenderSourceFile =
     (case prerenderResult of
        JArr xs \<Rightarrow>
          (case normalizeEach prerenderSourceFile xs of (xs', r) \<Rightarrow> (JArr xs', r))
      | _ \<Rightarrow>
          (case normalize prerenderSourceFile prerenderResult of
             (x', Inl e) \<Rightarrow> (x', Inl e)
           | (x', Inr y) \<Rightarrow> (x', Inr [y])))"

text \<open>
  What the normalizer does, said without its code. A record element passes the checks
  when it is a plain object whose \<^verbatim>\<open>url\<close> is a string that starts with a slash, whose
  keys are \<^verbatim>\<open>url\<close> and \<^verbatim>\<open>pageContext\<close> only, and whose \<^verbatim>\<open>pageContext\<close>, if
  there, is \<^verbatim>\<open>null\<close> or a plain object. An element is accepted when it is a string or
  passes the checks. \<open>leftAs\<close> is the element as a call that reached it leaves it,
  \<open>pairOf\<close> is the pair that the call returns for it, and \<open>elements\<close> are the
  elements of a hook result.
\<close>

definition passesChecks :: "jsval \<Rightarrow> bool" where
  "passesChecks el =
     (isPlainObject el \<and> hasPropString el ''url''
      \<and> startsWith (strOf (getProp (props el) ''url'')) ''/''
      \<and> list_all (\<lambda>key. key = ''url'' \<or> key = ''pageContext'') (objectKeys el)
      \<and> (hasPropObject el ''pageContext'' \<or> \<not> hasProp el ''pageContext''))"

definition accepted :: "jsval \<Rightarrow> bool" where
  "accepted el = (typeof el = ''string'' \<or> passesChecks el)"

definition leftAs :: "jsval \<Rightarrow> jsval" where
  "leftAs el =
     (if passesChecks el \<and> \<not> hasProp el ''pageContext''
      then JObj (props el @ [(''pageContext'', JNull)]) else el)"

definition pairOf :: "jsval \<Rightarrow> jsval" where
  "pairOf el =
     (if typeof el = ''string'' then JObj [(''url'', el), (''pageContext'', JNull)] else leftAs el)"

definition elements :: "jsval \<Rightarrow> jsval list" where
  "elements r = (case r of JArr xs \<Rightarrow> xs | _ \<Rightarrow> [r])"

section \<open>Warnings\<close>

text \<open>
  Modelled from the spec: \<^verbatim>\<open>assertWarning(cond, msg, { onlyOnce: true })\<close>
  (utils/assert), "warnings are printed at most once per distinct message and never abort
  the run". The state is the list of the messages printed so far, oldest first; every call
  site of \<^verbatim>\<open>prerender.ts\<close> passes \<^verbatim>\<open>onlyOnce: true\<close>.
\<close>

definition assertWarning :: "bool \<Rightarrow> string \<Rightarrow> string list \<Rightarrow> string list" where
  "assertWarning condition msg printed =
     (if condition then printed
      else if msg \<in> set printed then printed
      else printed @ [msg])"

section \<open>The deprecated options of the entry point\<close>

definition deprecatedMsg :: "string \<Rightarrow> string" where
  "deprecatedMsg prop =
     ''[prerender()] Option `'' @ prop @ ''` is deprecated. Define `'' @ prop
     @ ''` in `vite.config.js` instead. See https://vite-plugin-ssr.com/config''"

definition noEffectMsg :: "string \<Rightarrow> string" where
  "noEffectMsg prop =
     ''[prerender()] Option `'' @ prop
     @ ''` is deprecated and has no effect (vite-plugin-ssr now automatically determines `''
     @ prop @ ''`)''"

text \<open>The decimal digits of a natural number.\<close>

function showNat :: "nat \<Rightarrow> string" where
  "showNat n = (if n < 10 then [char_of (48 + n)] else showNat (n div 10) @ [char_of (48 + n mod 10)])"
  by pat_completeness auto
termination
  by (relation "measure id") auto

declare showNat.simps [simp del]

text \<open>
  The text that a template literal gives for a primitive value. In \<^verbatim>\<open>prerender.ts\<close>
  only a falsy value reaches an interpolation of a value of unknown type (the one of
  \<^verbatim>\<open>parallel\<close>), so the text of an object, an array or a function is not needed and is
  left empty.
\<close>

fun interpolate :: "jsval \<Rightarrow> string" where
  "interpolate JUndefined = ''undefined''"
| "interpolate JNull = ''null''"
| "interpolate (JBool b) = (if b then ''true'' else ''false'')"
| "interpolate (JNum n) = (if n < 0 then ''-'' @ showNat (nat (- n)) else showNat (nat n))"
| "interpolate (JStr s) = s"
| "interpolate v = []"

text \<open>
  \<^verbatim>\<open>checkOutdatedOptions(options)\<close>. The options are the object that the caller passed,
  without the three current keys; \<^verbatim>\<open>isAbsolute\<close> is the function of Node's
  \<^verbatim>\<open>path\<close> module. The result is the list of printed warnings as the call leaves it,
  and whether the call returned or threw.
\<close>

definition checkOutdatedOptions ::
  "(string \<Rightarrow> bool) \<Rightarrow> obj \<Rightarrow> string list \<Rightarrow> string list \<times> (error + unit)" where
  "checkOutdatedOptions isAbsolute options printed =
     (case find (\<lambda>prop. getProp options prop \<noteq> JUndefined) [''noExtraDir'', ''partial'', ''parallel''] of
        Some prop \<Rightarrow> (printed, Inl (UsageError (deprecatedMsg prop)))
      | None \<Rightarrow>
          (let printed' =
                 fold (\<lambda>prop. assertWarning (getProp options prop = JUndefined) (noEffectMsg prop))
                   [''base'', ''root'', ''outDir''] printed;
               partial = getProp options ''partial'';
               noExtraDir = getProp options ''noExtraDir'';
               root = getProp options ''root'';
               outDir = getProp options ''outDir'';
               parallel = getProp options ''parallel''
           in if \<not> (partial = JUndefined \<or> partial = JBool True \<or> partial = JBool False) then
                (printed', Inl (UsageError ''[prerender()] Option `partial` should be a boolean.''))
              else if \<not> (noExtraDir = JUndefined \<or> noExtraDir = JBool True \<or> noExtraDir = JBool False) then
                (printed', Inl (UsageError ''[prerender()] Option `noExtraDir` should be a boolean.''))
              else if \<not> (root = JUndefined \<or> typeof root = ''string'') then
                (printed', Inl (UsageError ''[prerender()] Option `root` should be a string.''))
              else if \<not> (root = JUndefined \<or> isAbsolute (strOf root)) then
                (printed',
                 Inl (UsageError ''[prerender()] The path `root` is not absolute. Make sure to provide an absolute path.''))
              else if \<not> (outDir = JUndefined \<or> typeof outDir = ''string'') then
                (printed', Inl (UsageError ''[prerender()] Option `outDir` should be a string.''))
              else if \<not> (parallel = JUndefined \<or> truthy parallel) then
                (printed',
                 Inl (UsageError (''[prerender()] Option `parallel` should be a number `>=1` but we got `''
                    @ interpolate parallel @ ''`.'')))
              else (printed', Inr ())))"

text \<open>\<^verbatim>\<open>path.isAbsolute\<close> on a POSIX host: the path starts with a slash.\<close>

definition isAbsolutePosix :: "string \<Rightarrow> bool" where
  "isAbsolutePosix p = startsWith p ''/''"

section \<open>Page files, the global context and the collaborators\<close>

text \<open>
  A page file of the inventory, as \<^verbatim>\<open>loadFile()\<close> leaves it: \<open>fileExports\<close> holds the
  exports of the loaded module. The loader itself is a collaborator; it is idempotent, so
  the model starts from loaded files.
\<close>

record pageFile =
  fileType :: string
  filePath :: string
  pageId :: string
  isDefaultPageFile :: bool
  fileExports :: "obj option"

text \<open>\<^verbatim>\<open>p.fileExports?.[k]\<close>\<close>

definition exportOf :: "pageFile \<Rightarrow> string \<Rightarrow> jsval" where
  "exportOf p k = (case fileExports p of None \<Rightarrow> JUndefined | Some ex \<Rightarrow> getProp ex k)"

text \<open>
  The global context, as the phases of \<^verbatim>\<open>prerender.ts\<close> read it. The four keys that
  they read with a declared type (\<^verbatim>\<open>_pageFilesAll\<close>, \<^verbatim>\<open>_allPageIds\<close>,
  \<^verbatim>\<open>_noExtraDir\<close>, \<^verbatim>\<open>prerenderPageContexts\<close>) are fields of the record; all other
  keys (the ones of \<^verbatim>\<open>getGlobalContext\<close>, of \<^verbatim>\<open>pageContextInit\<close> and of the hooks)
  are the object \<open>contextProps\<close>, and it is this object that a spread
  \<^verbatim>\<open>{...globalContext}\<close> copies into a page context. A page context is an object; its
  shared references to the arrays of the global context are left out of it.
\<close>

record globalContext =
  pageFilesAll :: "pageFile list"
  allPageIds :: "string list"
  noExtraDir :: bool
  prerenderPageContexts :: "obj list"
  contextProps :: obj

text \<open>
  The global context is one JavaScript object: a hook gets this object, and
  \<^verbatim>\<open>objectAssign(globalContext, ...)\<close> writes into it, the four typed keys included.
  \<open>globalObject\<close> is the object of a global context, with the typed keys written as
  values (a page file as the record of its five fields), and \<open>decodeGlobal\<close> reads a
  global context back from an object. It fails when a typed key holds a value that is not
  of the declared type.
\<close>

definition internalKeys :: "string list" where
  "internalKeys = [''_pageFilesAll'', ''_allPageIds'', ''_noExtraDir'', ''prerenderPageContexts'']"

definition encodePageFile :: "pageFile \<Rightarrow> jsval" where
  "encodePageFile p =
     JObj [(''fileType'', JStr (fileType p)), (''filePath'', JStr (filePath p)),
           (''pageId'', JStr (pageId p)), (''isDefaultPageFile'', JBool (isDefaultPageFile p)),
           (''fileExports'', (case fileExports p of None \<Rightarrow> JUndefined | Some ex \<Rightarrow> JObj ex))]"

definition globalObject :: "globalContext \<Rightarrow> obj" where
  "globalObject g =
     objectAssign (contextProps g)
       [(''_pageFilesAll'', JArr (map encodePageFile (pageFilesAll g))),
        (''_allPageIds'', JArr (map JStr (allPageIds g))),
        (''_noExtraDir'', JBool (noExtraDir g)),
        (''prerenderPageContexts'', JArr (map JObj (prerenderPageContexts g)))]"

definition asString :: "jsval \<Rightarrow> string option" where
  "asString v = (case v of JStr s \<Rightarrow> Some s | _ \<Rightarrow> None)"

definition asBool :: "jsval \<Rightarrow> bool option" where
  "asBool v = (case v of JBool b \<Rightarrow> Some b | _ \<Rightarrow> None)"

definition asObject :: "jsval \<Rightarrow> obj option" where
  "asObject v = (case v of JObj kvs \<Rightarrow> Some kvs | _ \<Rightarrow> None)"

definition asArray :: "jsval \<Rightarrow> jsval list option" where
  "asArray v = (case v of JArr xs \<Rightarrow> Some xs | _ \<Rightarrow> None)"

fun decodeEach :: "('a \<Rightarrow> 'b option) \<Rightarrow> 'a list \<Rightarrow> 'b list option" where
  "decodeEach dec [] = Some []"
| "decodeEach dec (x # xs) =
     (case dec x of
        None \<Rightarrow> None
      | Some y \<Rightarrow> (case decodeEach dec xs of None \<Rightarrow> None | Some ys \<Rightarrow> Some (y # ys)))"

definition decodeArray :: "(jsval \<Rightarrow> 'b option) \<Rightarrow> jsval \<Rightarrow> 'b list option" where
  "decodeArray dec v = (case asArray v of None \<Rightarrow> None | Some xs \<Rightarrow> decodeEach dec xs)"

definition decodeExports :: "jsval \<Rightarrow> obj option option" where
  "decodeExports v = (case v of JUndefined \<Rightarrow> Some None | JObj ex \<Rightarrow> Some (Some ex) | _ \<Rightarrow> None)"

definition decodePageFile :: "jsval \<Rightarrow> pageFile option" where
  "decodePageFile v =
     (case asObject v of None \<Rightarrow> None | Some kvs \<Rightarrow>
     (case asString (getProp kvs ''fileType'') of None \<Rightarrow> None | Some t \<Rightarrow>
     (case asString (getProp kvs ''filePath'') of None \<Rightarrow> None | Some f \<Rightarrow>
     (case asString (getProp kvs ''pageId'') of None \<Rightarrow> None | Some i \<Rightarrow>
     (case asBool (getProp kvs ''isDefaultPageFile'') of None \<Rightarrow> None | Some b \<Rightarrow>
     (case decodeExports (getProp kvs ''fileExports'') of None \<Rightarrow> None | Some ex \<Rightarrow>
        Some \<lparr>fileType = t, filePath = f, pageId = i, isDefaultPageFile = b, fileExports = ex\<rparr>))))))"

definition decodeGlobal :: "obj \<Rightarrow> globalContext option" where
  "decodeGlobal gobj =
     (case decodeArray decodePageFile (getProp gobj ''_pageFilesAll'') of None \<Rightarrow> None | Some files \<Rightarrow>
     (case decodeArray asString (getProp gobj ''_allPageIds'') of None \<Rightarrow> None | Some ids \<Rightarrow>
     (case asBool (getProp gobj ''_noExtraDir'') of None \<Rightarrow> None | Some flat \<Rightarrow>
     (case decodeArray asObject (getProp gobj ''prerenderPageContexts'') of None \<Rightarrow> None | Some pcs \<Rightarrow>
        Some \<lparr>pageFilesAll = files, allPageIds = ids, noExtraDir = flat, prerenderPageContexts = pcs,
              contextProps = filter (\<lambda>kv. fst kv \<notin> set internalKeys) gobj\<rparr>))))"

text \<open>An entry of \<^verbatim>\<open>doNotPrerenderList\<close>: the page id and the path of the page-server file.\<close>

type_synonym doNotPrerenderList = "(string \<times> string) list"

record htmlFile =
  url :: string
  pageContext :: obj
  htmlString :: string
  pageContextSerialized :: "string option"
  doNotCreateExtraDirectory :: bool
  htmlPageId :: "string option"

text \<open>A page route as \<^verbatim>\<open>loadPageRoutes\<close> yields it; \<open>pageRouteFile\<close> holds the route value.\<close>

record pageRoute =
  routePageId :: string
  pageRouteFile :: "jsval option"
  filesystemRoute :: string

text \<open>
  The collaborators of the pipeline: the user's functions (\<open>callFn\<close> gives, for the
  identifier of a function value and its arguments, the value it returns, \<open>Inr\<close>, or
  throws, \<open>Inl\<close>; a function is taken to write into none of its arguments), the
  router, the loader of a page's server files, the renderer, the functions of Node's
  \<^verbatim>\<open>path\<close> module, and \<open>parallel\<close>, the ceiling of the task runner (the configured
  value or the number of CPUs).
\<close>

record collaborators =
  callFn :: "nat \<Rightarrow> jsval list \<Rightarrow> jsval + jsval"
  pageRoutes :: "pageRoute list"
  isStaticRoute :: "string \<Rightarrow> bool"
  route :: "obj \<Rightarrow> jsval + obj"
  loadPageFilesServer :: "obj \<Rightarrow> obj"
  prerenderPage :: "obj \<Rightarrow> jsval + string \<times> string option"
  renderStatic404Page :: "globalContext \<Rightarrow> (string \<times> obj) option"
  isErrorPage :: "string \<Rightarrow> bool"
  getFileUrl :: "string \<Rightarrow> string \<Rightarrow> bool \<Rightarrow> string"
  sep :: string
  pathJoin :: "string list \<Rightarrow> string"
  isAbsolute :: "string \<Rightarrow> bool"
  parallel :: nat

text \<open>A call of a value: a value that is no function throws a \<^verbatim>\<open>TypeError\<close>.\<close>

definition invoke :: "collaborators \<Rightarrow> jsval \<Rightarrow> jsval list \<Rightarrow> jsval + jsval" where
  "invoke c f args = (case f of JFun n \<Rightarrow> callFn c n args | _ \<Rightarrow> Inl (JStr ''TypeError''))"

text \<open>
  \<^verbatim>\<open>await Promise.all(items.map((item) => concurrencyLimit(async () => ...)))\<close>: the
  tasks of one phase. The runner starts the tasks in the order of the array, at most
  \<open>parallel\<close> of them being started and not finished, and a task runs without
  interruption from one \<^verbatim>\<open>await\<close> to the next. The model takes the schedule in which
  the tasks finish in the order in which they were started. Where a task reads and
  writes the shared state in its last block only (the hook tasks, the routing tasks and
  the write jobs), this schedule leaves the state that running the tasks one after
  another leaves, and \<open>runAll\<close> does that; the tasks of the static routes are not of
  this kind and have their own runner below. The first throw ends the phase, as the
  rejection of \<^verbatim>\<open>Promise.all\<close> ends \<^verbatim>\<open>prerender\<close>; where several tasks would
  throw, it is the throw of the first of them in the order of the array. \<open>runAll\<close>
  also models a \<^verbatim>\<open>forEach\<close> whose body may throw.
\<close>

fun runAll :: "('a \<Rightarrow> 's \<Rightarrow> 's \<times> (error + unit)) \<Rightarrow> 'a list \<Rightarrow> 's \<Rightarrow> 's \<times> (error + unit)" where
  "runAll task [] s = (s, Inr ())"
| "runAll task (x # xs) s =
     (case task x s of
        (s', Inl e) \<Rightarrow> (s', Inl e)
      | (s', Inr u) \<Rightarrow> runAll task xs s')"

text \<open>The first element that satisfies the test is replaced, as a write through a reference
  that \<^verbatim>\<open>find\<close> returned.\<close>

fun updateFirst :: "('a \<Rightarrow> bool) \<Rightarrow> ('a \<Rightarrow> 'a) \<Rightarrow> 'a list \<Rightarrow> 'a list" where
  "updateFirst P f [] = []"
| "updateFirst P f (x # xs) = (if P x then f x # xs else x # updateFirst P f xs)"

section \<open>Phase 1: the \<^verbatim>\<open>prerender()\<close> hooks\<close>

text \<open>The message of lines 178 and 290, for the name of the export and the path of the file.\<close>

definition shouldBeFunctionMsg :: "string \<Rightarrow> string \<Rightarrow> string" where
  "shouldBeFunctionMsg name path = ''`export { '' @ name @ '' }` of '' @ path @ '' should be a function.''"

text \<open>
  The body of \<^verbatim>\<open>result.forEach\<close> in \<^verbatim>\<open>callPrerenderHooks\<close> (lines 191 to 212), for
  one normalized pair.
\<close>

definition addPrerenderResult :: "string \<Rightarrow> jsval \<Rightarrow> globalContext \<Rightarrow> globalContext \<times> (error + unit)" where
  "addPrerenderResult prerenderSourceFile item g =
     (let url = getProp (props item) ''url'';
          pageContext = getProp (props item) ''pageContext''
      in if typeof url \<noteq> ''string'' then (g, Inl AssertionFailed)
         else if \<not> startsWith (strOf url) ''/'' then (g, Inl AssertionFailed)
         else if \<not> (pageContext = JNull \<or> isPlainObject pageContext) then (g, Inl AssertionFailed)
         else
           (let pcs = (case find (\<lambda>pc. getProp pc ''url'' = url) (prerenderPageContexts g) of
                         None \<Rightarrow>
                           prerenderPageContexts g
                           @ [objectAssign (contextProps g)
                                [(''_prerenderSourceFile'', JStr prerenderSourceFile), (''url'', url)]]
                       | Some pageContextFound \<Rightarrow> prerenderPageContexts g);
                pcs' = (if truthy pageContext then
                          updateFirst (\<lambda>pc. getProp pc ''url'' = url)
                            (\<lambda>pageContextFound.
                               objectAssign pageContextFound
                                 (objectAssign [(''_pageContextAlreadyProvidedByPrerenderHook'', JBool True)]
                                    (props pageContext)))
                            pcs
                        else pcs)
            in (g\<lparr>prerenderPageContexts := pcs'\<rparr>, Inr ())))"

text \<open>
  One task of \<^verbatim>\<open>callPrerenderHooks\<close> (lines 169 to 213), for a page-server file. The
  state is the global context and the exclusion list.
\<close>

definition prerenderHookTask ::
  "collaborators \<Rightarrow> pageFile \<Rightarrow> globalContext \<times> doNotPrerenderList
     \<Rightarrow> (globalContext \<times> doNotPrerenderList) \<times> (error + unit)" where
  "prerenderHookTask c p s =
     (case s of (g, doNotPrerenderList) \<Rightarrow>
        if truthy (exportOf p ''doNotPrerender'') then
          ((g, doNotPrerenderList @ [(pageId p, filePath p)]), Inr ())
        else if \<not> truthy (exportOf p ''prerender'') then (s, Inr ())
        else if \<not> isCallable (exportOf p ''prerender'') then
          (s, Inl (UsageError (shouldBeFunctionMsg ''prerender'' (filePath p))))
        else if filePath p = [] then (s, Inl AssertionFailed)
        else
          (case invoke c (exportOf p ''prerender'') [] of
             Inl err \<Rightarrow> (s, Inl (HookError err))
           | Inr prerenderResult \<Rightarrow>
               (case snd (normalizePrerenderResult prerenderResult (filePath p)) of
                  Inl e \<Rightarrow> (s, Inl e)
                | Inr result \<Rightarrow>
                    (case runAll (addPrerenderResult (filePath p)) result g of
                       (g', r) \<Rightarrow> ((g', doNotPrerenderList), r)))))"

definition callPrerenderHooks ::
  "collaborators \<Rightarrow> globalContext \<Rightarrow> doNotPrerenderList
     \<Rightarrow> (globalContext \<times> doNotPrerenderList) \<times> (error + unit)" where
  "callPrerenderHooks c g doNotPrerenderList =
     runAll (prerenderHookTask c)
       (filter (\<lambda>p. fileType p = ''.page.server'') (pageFilesAll g)) (g, doNotPrerenderList)"

section \<open>Phase 2: pages with a static route\<close>

text \<open>
  A task of \<^verbatim>\<open>handlePagesWithStaticRoutes\<close> has two blocks. The first (lines 228 to
  262) tests the exclusion list and the page contexts and builds the page context; it ends
  the task, or goes on to await \<^verbatim>\<open>loadPageFilesServer\<close> with the page context it
  built. The second (lines 262 to 264) merges what was loaded and pushes the page context.
\<close>

definition staticRouteStart ::
  "collaborators \<Rightarrow> doNotPrerenderList \<Rightarrow> pageRoute \<Rightarrow> globalContext \<Rightarrow> error + obj option" where
  "staticRouteStart c doNotPrerenderList pr g =
     (if find (\<lambda>p. fst p = routePageId pr) doNotPrerenderList \<noteq> None then Inr None
      else
        (case (case pageRouteFile pr of
                 Some routeValue \<Rightarrow>
                   if typeof routeValue = ''string'' \<and> isStaticRoute c (strOf routeValue) then
                     (if startsWith (strOf routeValue) ''/'' then Inr (Some (strOf routeValue))
                      else Inl AssertionFailed)
                   else Inr None
               | None \<Rightarrow> Inr (Some (filesystemRoute pr))) of
           Inl e \<Rightarrow> Inl e
         | Inr None \<Rightarrow> Inr None
         | Inr (Some u) \<Rightarrow>
             if \<not> startsWith u ''/'' then Inl AssertionFailed
             else if find (\<lambda>pc. getProp pc ''url'' = JStr u) (prerenderPageContexts g) \<noteq> None then
               Inr None
             else
               Inr (Some (objectAssign (contextProps g)
                            [(''_prerenderSourceFile'', JNull), (''url'', JStr u),
                             (''routeParams'', JObj []), (''_pageId'', JStr (routePageId pr))]))))"

definition staticRouteFinish :: "collaborators \<Rightarrow> obj \<Rightarrow> globalContext \<Rightarrow> globalContext" where
  "staticRouteFinish c pc g =
     g\<lparr>prerenderPageContexts :=
         prerenderPageContexts g @ [objectAssign pc (loadPageFilesServer c pc)]\<rparr>"

text \<open>
  The runner of these tasks. \<open>waiting\<close> holds the page contexts of the tasks that
  have started and await their load, the oldest first. While the ceiling is reached the
  oldest waiting task finishes; else the next task starts. With a ceiling of one the tasks
  run one after another; with a higher ceiling a task can start, and find no page context
  for its URL, while a task for the same URL is waiting.
\<close>

fun runStaticRoutes ::
  "collaborators \<Rightarrow> doNotPrerenderList \<Rightarrow> pageRoute list \<Rightarrow> obj list \<Rightarrow> globalContext
     \<Rightarrow> globalContext \<times> (error + unit)" where
  "runStaticRoutes c doNotPrerenderList [] waiting g = (fold (staticRouteFinish c) waiting g, Inr ())"
| "runStaticRoutes c doNotPrerenderList (pr # prs) waiting g =
     (if waiting \<noteq> [] \<and> parallel c \<le> length waiting then
        runStaticRoutes c doNotPrerenderList (pr # prs) (tl waiting) (staticRouteFinish c (hd waiting) g)
      else
        (case staticRouteStart c doNotPrerenderList pr g of
           Inl e \<Rightarrow> (g, Inl e)
         | Inr None \<Rightarrow> runStaticRoutes c doNotPrerenderList prs waiting g
         | Inr (Some pc) \<Rightarrow> runStaticRoutes c doNotPrerenderList prs (waiting @ [pc]) g))"

definition handlePagesWithStaticRoutes ::
  "collaborators \<Rightarrow> globalContext \<Rightarrow> doNotPrerenderList \<Rightarrow> globalContext \<times> (error + unit)" where
  "handlePagesWithStaticRoutes c g doNotPrerenderList =
     runStaticRoutes c doNotPrerenderList (pageRoutes c) [] g"

section \<open>Phase 3: the \<^verbatim>\<open>onBeforePrerender()\<close> hook\<close>

text \<open>
  Modelled from the spec: \<^verbatim>\<open>isObjectWithKeys(obj, keys)\<close> (utils/isObjectWithKeys), a
  plain object that has no key outside the given ones ("any other non-empty/non-null
  return shape is a fatal usage error").
\<close>

definition isObjectWithKeys :: "jsval \<Rightarrow> string list \<Rightarrow> bool" where
  "isObjectWithKeys v keys = (isPlainObject v \<and> list_all (\<lambda>k. k \<in> set keys) (objectKeys v))"

definition onlyOneHookMsg :: string where
  "onlyOneHookMsg =
     ''There can be only one `onBeforePrerender()` hook. If you need to be able to define several, open a new GitHub issue.''"

definition errPrefix :: "string \<Rightarrow> string" where
  "errPrefix path = ''The `onBeforePrerender()` hook exported by `'' @ path @ ''`''"

definition badReturnMsg :: "string \<Rightarrow> string" where
  "badReturnMsg path =
     errPrefix path
     @ '' should return `null`, `undefined`, or a plain JavaScript object `{ globalContext: { /* ... */ } }`.''"

definition badGlobalContextMsg :: "string \<Rightarrow> string" where
  "badGlobalContextMsg path =
     errPrefix path
     @ '' returned `{ globalContext }` but `globalContext` should be a plain JavaScript object.''"

text \<open>
  \<^verbatim>\<open>callOnBeforePrerenderHook(globalContext)\<close>; \<open>pageFilesServerDefault\<close> and
  \<open>hooks\<close> are its two constants of that name, read from the page files of the global
  context. The hook gets the object of the global context, and what it returns under
  \<^verbatim>\<open>globalContext\<close> is merged into this object. The result is the object as the call
  leaves it, and whether the call returned or threw.
\<close>

definition pageFilesServerDefault :: "globalContext \<Rightarrow> pageFile list" where
  "pageFilesServerDefault g =
     filter (\<lambda>p. fileType p = ''.page.server'' \<and> isDefaultPageFile p) (pageFilesAll g)"

definition hooks :: "globalContext \<Rightarrow> (string \<times> jsval) list" where
  "hooks g =
     map (\<lambda>p. (filePath p, exportOf p ''onBeforePrerender''))
       (filter (\<lambda>p. truthy (exportOf p ''onBeforePrerender'')) (pageFilesServerDefault g))"

definition callOnBeforePrerenderHook ::
  "collaborators \<Rightarrow> globalContext \<Rightarrow> obj \<times> (error + unit)" where
  "callOnBeforePrerenderHook c g =
     (case hooks g of
           [] \<Rightarrow> (globalObject g, Inr ())
         | [hook] \<Rightarrow>
             (case hook of (path, onBeforePrerender) \<Rightarrow>
                if \<not> isCallable onBeforePrerender then
                  (globalObject g, Inl (UsageError (shouldBeFunctionMsg ''onBeforePrerender'' path)))
                else
                  (case invoke c onBeforePrerender [JObj (globalObject g)] of
                     Inl err \<Rightarrow> (globalObject g, Inl (HookError err))
                   | Inr result \<Rightarrow>
                       if result = JNull \<or> result = JUndefined then (globalObject g, Inr ())
                       else if \<not> (isObjectWithKeys result [''globalContext''] \<and> hasProp result ''globalContext'') then
                         (globalObject g, Inl (UsageError (badReturnMsg path)))
                       else if \<not> isPlainObject (getProp (props result) ''globalContext'') then
                         (globalObject g, Inl (UsageError (badGlobalContextMsg path)))
                       else
                         (objectAssign (globalObject g) (props (getProp (props result) ''globalContext'')),
                          Inr ())))
         | hook # others \<Rightarrow> (globalObject g, Inl (UsageError onlyOneHookMsg)))"

section \<open>Phase 4: routing and rendering\<close>

text \<open>The observable steps of a run, in the order in which they are done.\<close>

datatype event =
    Rendered string
  | FileWritten string string
  | SinkCalled obj
  | ContradictionChecked
  | MissingPagesChecked

text \<open>
  Modelled from the spec: \<^verbatim>\<open>hasProp(obj, prop, 'null')\<close> (utils/hasProp), the key is
  there and holds \<^verbatim>\<open>null\<close>.
\<close>

definition hasPropNull :: "jsval \<Rightarrow> string \<Rightarrow> bool" where
  "hasPropNull v k = (hasProp v k \<and> getProp (props v) k = JNull)"

definition noMatchMsg :: "string \<Rightarrow> string \<Rightarrow> string" where
  "noMatchMsg prerenderSourceFile u =
     ''Your `prerender()` hook defined in `'' @ prerenderSourceFile @ '' returns an URL `'' @ u
     @ ''` that doesn't match any page route. Make sure the URLs your return in your `prerender()` hooks always match the URL of a page.''"

text \<open>
  One task of \<^verbatim>\<open>routeAndPrerender\<close> (lines 317 to 357), for a page context. The state
  is \<^verbatim>\<open>htmlFiles\<close>, \<^verbatim>\<open>prerenderPageIds\<close> and the events so far. The task extends the
  page context in place; \<^verbatim>\<open>htmlFiles\<close> and \<^verbatim>\<open>prerenderPageIds\<close> hold the extended
  object, and it is from there that the later steps read it.
\<close>

definition routeAndPrerenderTask ::
  "collaborators \<Rightarrow> globalContext \<Rightarrow> obj
     \<Rightarrow> htmlFile list \<times> (string \<times> obj) list \<times> event list
     \<Rightarrow> (htmlFile list \<times> (string \<times> obj) list \<times> event list) \<times> (error + unit)" where
  "routeAndPrerenderTask c g pc s =
     (case s of (htmlFiles, prerenderPageIds, events) \<Rightarrow>
        (case route c pc of
           Inl hookError \<Rightarrow> (s, Inl (HookError hookError))
         | Inr pageContextAddendum \<Rightarrow>
             if \<not> (hasPropNull (JObj pageContextAddendum) ''_pageId''
                    \<or> hasPropString (JObj pageContextAddendum) ''_pageId'') then
               (s, Inl AssertionFailed)
             else if getProp pageContextAddendum ''_pageId'' = JNull then
               (if \<not> truthy (getProp pc ''_prerenderSourceFile'') then (s, Inl AssertionFailed)
                else (s, Inl (UsageError
                        (noMatchMsg (strOf (getProp pc ''_prerenderSourceFile'')) (strOf (getProp pc ''url''))))))
             else if \<not> truthy (getProp pageContextAddendum ''_pageId'') then (s, Inl AssertionFailed)
             else
               (let pc1 = objectAssign pc pageContextAddendum;
                    pid = getProp pc1 ''_pageId'';
                    pageFilesData = loadPageFilesServer c (objectAssign (contextProps g) [(''_pageId'', pid)]);
                    pc2 = objectAssign pc1 pageFilesData
                in case prerenderPage c pc2 of
                     Inl err \<Rightarrow> (s, Inl (HookError err))
                   | Inr rendered \<Rightarrow>
                       ((htmlFiles @
                           [\<lparr>url = strOf (getProp pc ''url''), pageContext = pc2,
                             htmlString = fst rendered, pageContextSerialized = snd rendered,
                             doNotCreateExtraDirectory = noExtraDir g,
                             htmlPageId = Some (strOf pid)\<rparr>],
                         setProp (strOf pid) pc2 prerenderPageIds,
                         events @ [Rendered (strOf (getProp pc ''url''))]),
                        Inr ()))))"

definition routeAndPrerender ::
  "collaborators \<Rightarrow> globalContext
     \<Rightarrow> htmlFile list \<times> (string \<times> obj) list \<times> event list
     \<Rightarrow> (htmlFile list \<times> (string \<times> obj) list \<times> event list) \<times> (error + unit)" where
  "routeAndPrerender c g s = runAll (routeAndPrerenderTask c g) (prerenderPageContexts g) s"

section \<open>The coverage validator\<close>

definition contradictionMsg :: "string \<Rightarrow> string \<Rightarrow> string \<Rightarrow> string" where
  "contradictionMsg prerenderSourceFile u pageServerFilePath =
     ''Your `prerender()` hook defined in '' @ prerenderSourceFile @ '' returns the URL `'' @ u
     @ ''` which matches the page with `'' @ pageServerFilePath
     @ ''#doNotPrerender === true`. This is contradictory: either do not set `doNotPrerender` or remove the URL from the list of URLs to be pre-rendered.''"

text \<open>
  \<^verbatim>\<open>warnContradictoryNoPrerenderList(prerenderPageIds, doNotPrerenderList)\<close>. The
  rendered page ids are the entries of an object, in the order of their insertion; the
  loop throws at the first entry that the exclusion list holds.
\<close>

fun warnContradictoryNoPrerenderList :: "(string \<times> obj) list \<Rightarrow> doNotPrerenderList \<Rightarrow> error + unit" where
  "warnContradictoryNoPrerenderList [] doNotPrerenderList = Inr ()"
| "warnContradictoryNoPrerenderList (entry # entries) doNotPrerenderList =
     (case find (\<lambda>p. fst p = fst entry) doNotPrerenderList of
        Some doNotPrerenderListHit \<Rightarrow>
          if \<not> truthy (getProp (snd entry) ''_prerenderSourceFile'') then Inl AssertionFailed
          else Inl (UsageError
                 (contradictionMsg (strOf (getProp (snd entry) ''_prerenderSourceFile''))
                    (strOf (getProp (snd entry) ''url'')) (snd doNotPrerenderListHit)))
      | None \<Rightarrow> warnContradictoryNoPrerenderList entries doNotPrerenderList)"

definition missingMsg :: "string \<Rightarrow> string" where
  "missingMsg pid =
     ''Could not pre-render page `'' @ pid
     @ ''.page.*` because it has a non-static route, and no `prerender()` hook returned (an) URL(s) matching the page's route. Either use a `prerender()` hook to pre-render the page, or use the `--partial` option to suppress this warning.''"

text \<open>
  \<^verbatim>\<open>warnMissingPages(prerenderPageIds, doNotPrerenderList, globalContext, partial)\<close>,
  with the error-page test of the router as its first argument and the printed warnings
  as its state. The function has no throw.
\<close>

definition warnMissingPages ::
  "(string \<Rightarrow> bool) \<Rightarrow> (string \<times> obj) list \<Rightarrow> doNotPrerenderList \<Rightarrow> string list \<Rightarrow> bool
     \<Rightarrow> string list \<Rightarrow> string list" where
  "warnMissingPages isErrorPg prerenderPageIds doNotPrerenderList pageIds partial printed =
     fold (\<lambda>pid. assertWarning partial (missingMsg pid))
       (filter (\<lambda>pid. \<not> isErrorPg pid)
          (filter (\<lambda>pid. find (\<lambda>p. fst p = pid) doNotPrerenderList = None)
             (filter (\<lambda>pid. map_of prerenderPageIds pid = None) pageIds)))
       printed"

section \<open>Phase 5 and the output writer\<close>

definition prerender404Page ::
  "collaborators \<Rightarrow> globalContext \<Rightarrow> htmlFile list \<times> event list \<Rightarrow> htmlFile list \<times> event list" where
  "prerender404Page c g s =
     (case s of (htmlFiles, events) \<Rightarrow>
        if find (\<lambda>h. url h = ''/404'') htmlFiles = None then
          (case renderStatic404Page c g of
             Some result \<Rightarrow>
               (htmlFiles @
                  [\<lparr>url = ''/404'', pageContext = snd result, htmlString = fst result,
                    pageContextSerialized = None, doNotCreateExtraDirectory = True,
                    htmlPageId = None\<rparr>],
                events @ [Rendered ''/404''])
           | None \<Rightarrow> s)
        else s)"

text \<open>\<^verbatim>\<open>s.split(c)\<close> for a one-character separator, and \<^verbatim>\<open>parts.join(s)\<close>.\<close>

fun splitOn :: "char \<Rightarrow> string \<Rightarrow> string list" where
  "splitOn c [] = [[]]"
| "splitOn c (x # xs) =
     (if x = c then [] # splitOn c xs
      else (case splitOn c xs of [] \<Rightarrow> [[x]] | w # ws \<Rightarrow> (x # w) # ws))"

fun joinWith :: "string \<Rightarrow> string list \<Rightarrow> string" where
  "joinWith s [] = []"
| "joinWith s [w] = w"
| "joinWith s (w # ws) = w @ s @ joinWith s ws"

text \<open>
  \<^verbatim>\<open>write(...)\<close>: one write job. With a caller-supplied \<^verbatim>\<open>onPagePrerender\<close> the job
  hands the page context to it, else it writes the file; the calls of \<^verbatim>\<open>fs\<close> are taken
  to succeed.
\<close>

definition writeJob ::
  "collaborators \<Rightarrow> string \<Rightarrow> obj \<Rightarrow> string \<Rightarrow> string \<Rightarrow> string \<Rightarrow> string \<Rightarrow> bool \<Rightarrow> jsval
     \<Rightarrow> event list \<Rightarrow> event list \<times> (error + unit)" where
  "writeJob c u pc fileExtension fileContent root outDir doNotCreateExtraDir onPagePrerender events =
     (let fileUrl = getFileUrl c u fileExtension (fileExtension = ''.pageContext.json'' \<or> doNotCreateExtraDir)
      in if \<not> startsWith fileUrl ''/'' then (events, Inl AssertionFailed)
         else
           (let filePathRelative = joinWith (sep c) (splitOn (CHR ''/'') (drop 1 fileUrl))
            in if startsWith filePathRelative (sep c) then (events, Inl AssertionFailed)
               else if \<not> (outDir \<noteq> [] \<and> CHR 0x5C \<notin> set outDir) then (events, Inl AssertionFailed)
               else if \<not> (''server'' \<notin> set (splitOn (CHR ''/'') outDir)
                            \<and> ''client'' \<notin> set (splitOn (CHR ''/'') outDir)) then
                 (events, Inl AssertionFailed)
               else
                 (let filePath = pathJoin c [root, outDir, ''client'', filePathRelative]
                  in if truthy onPagePrerender then
                       (let pc' = objectAssign pc
                                    [(''_prerenderResult'',
                                      JObj [(''filePath'', JStr filePath), (''fileContent'', JStr fileContent)])]
                        in case invoke c onPagePrerender [JObj pc'] of
                             Inl err \<Rightarrow> (events, Inl (HookError err))
                           | Inr r \<Rightarrow> (events @ [SinkCalled pc'], Inr ()))
                     else (events @ [FileWritten filePath fileContent], Inr ()))))"

definition writeHtmlFile ::
  "collaborators \<Rightarrow> string \<Rightarrow> string \<Rightarrow> doNotPrerenderList \<Rightarrow> jsval \<Rightarrow> htmlFile
     \<Rightarrow> event list \<Rightarrow> event list \<times> (error + unit)" where
  "writeHtmlFile c root outDir doNotPrerenderList onPagePrerender hf events =
     (if \<not> startsWith (url hf) ''/'' then (events, Inl AssertionFailed)
      else if find (\<lambda>p. Some (fst p) = htmlPageId hf) doNotPrerenderList \<noteq> None then
        (events, Inl AssertionFailed)
      else
        (case writeJob c (url hf) (pageContext hf) ''.html'' (htmlString hf) root outDir
                (doNotCreateExtraDirectory hf) onPagePrerender events of
           (events', Inl e) \<Rightarrow> (events', Inl e)
         | (events', Inr r) \<Rightarrow>
             (case pageContextSerialized hf of
                None \<Rightarrow> (events', Inr ())
              | Some serialized \<Rightarrow>
                  writeJob c (url hf) (pageContext hf) ''.pageContext.json'' serialized root outDir
                    (doNotCreateExtraDirectory hf) onPagePrerender events')))"

section \<open>The orchestrator\<close>

text \<open>
  \<^verbatim>\<open>prerender(...)\<close>, from the check of the deprecated options (line 77) and then from
  line 130 on. The resolution of the Vite configuration and the construction of the global
  context (lines 79 to 128) are collaborators' work: their results are the arguments
  \<open>partial\<close>, \<open>root\<close> and \<open>g\<close>. The phases that follow the
  \<^verbatim>\<open>onBeforePrerender()\<close> hook read the global context from the object that the hook
  phase leaves. The result is the list of printed warnings, the events of the run, and
  whether the run returned or threw.
\<close>

definition prerender ::
  "collaborators \<Rightarrow> obj \<Rightarrow> jsval \<Rightarrow> bool \<Rightarrow> string \<Rightarrow> globalContext \<Rightarrow> string list
     \<Rightarrow> (string list \<times> event list) \<times> (error + unit)" where
  "prerender c deprecatedOptions onPagePrerender partial root g printed =
     (case checkOutdatedOptions (isAbsolute c) deprecatedOptions printed of
        (printed1, Inl e) \<Rightarrow> ((printed1, []), Inl e)
      | (printed1, Inr u0) \<Rightarrow>
     (case callPrerenderHooks c g [] of
        (s1, Inl e) \<Rightarrow> ((printed1, []), Inl e)
      | (s1, Inr u1) \<Rightarrow>
     (case handlePagesWithStaticRoutes c (fst s1) (snd s1) of
        (g2, Inl e) \<Rightarrow> ((printed1, []), Inl e)
      | (g2, Inr u2) \<Rightarrow>
     (case callOnBeforePrerenderHook c g2 of
        (gobj, Inl e) \<Rightarrow> ((printed1, []), Inl e)
      | (gobj, Inr u3) \<Rightarrow>
     (case decodeGlobal gobj of
        None \<Rightarrow> ((printed1, []), Inl IllTyped)
      | Some g3 \<Rightarrow>
     (case routeAndPrerender c g3 ([], [], []) of
        (s4, Inl e) \<Rightarrow> ((printed1, snd (snd s4)), Inl e)
      | (s4, Inr u4) \<Rightarrow>
     (case warnContradictoryNoPrerenderList (fst (snd s4)) (snd s1) of
        Inl e \<Rightarrow> ((printed1, snd (snd s4) @ [ContradictionChecked]), Inl e)
      | Inr u5 \<Rightarrow>
     (case prerender404Page c g3 (fst s4, snd (snd s4) @ [ContradictionChecked]) of
        (htmlFiles, events) \<Rightarrow>
     (case runAll (writeHtmlFile c root ''dist/'' (snd s1) onPagePrerender) htmlFiles events of
        (events', Inl e) \<Rightarrow> ((printed1, events'), Inl e)
      | (events', Inr u6) \<Rightarrow>
          ((warnMissingPages (isErrorPage c) (fst (snd s4)) (snd s1) (allPageIds g3) partial printed1,
            events' @ [MissingPagesChecked]),
           Inr ()))))))))))"

section \<open>The order of the events of a run\<close>

text \<open>The events that produce a document, and the events that hand a document out.\<close>

definition isRendered :: "event \<Rightarrow> bool" where
  "isRendered e = (case e of Rendered u \<Rightarrow> True | _ \<Rightarrow> False)"

definition isWrite :: "event \<Rightarrow> bool" where
  "isWrite e = (case e of FileWritten p content \<Rightarrow> True | SinkCalled pc \<Rightarrow> True | _ \<Rightarrow> False)"

definition isCheck :: "event \<Rightarrow> bool" where
  "isCheck e = (case e of ContradictionChecked \<Rightarrow> True | MissingPagesChecked \<Rightarrow> True | _ \<Rightarrow> False)"

text \<open>
  The order that the specification asks for, in its words: both checks of the validator
  "run after all rendering and writing complete", that is, no document is rendered or
  written after a check.
\<close>

fun checksAfterAllOutput :: "event list \<Rightarrow> bool" where
  "checksAfterAllOutput [] = True"
| "checksAfterAllOutput (e # es) =
     ((if isCheck e then list_all (\<lambda>x. \<not> isRendered x \<and> \<not> isWrite x) es else True)
      \<and> checksAfterAllOutput es)"

section \<open>An example site\<close>

text \<open>
  A small site on which the theorems below are run. Two page-server files have a
  \<^verbatim>\<open>prerender()\<close> hook and both return the URL \<^verbatim>\<open>/x\<close>; a default page-server file
  has an \<^verbatim>\<open>onBeforePrerender()\<close> hook; a third page has the filesystem route
  \<^verbatim>\<open>/c\<close>. The router sends \<^verbatim>\<open>/x\<close> to the page \<^verbatim>\<open>/pages/a\<close> and \<^verbatim>\<open>/c\<close> to the
  page \<^verbatim>\<open>/pages/c\<close>; no URL leads to the page \<^verbatim>\<open>/pages/b\<close>.
\<close>

definition examplePageFiles :: "pageFile list" where
  "examplePageFiles =
     [\<lparr>fileType = ''.page.server'', filePath = ''pages/a.page.server.js'', pageId = ''/pages/a'',
       isDefaultPageFile = False, fileExports = Some [(''prerender'', JFun 0)]\<rparr>,
      \<lparr>fileType = ''.page.server'', filePath = ''pages/b.page.server.js'', pageId = ''/pages/b'',
       isDefaultPageFile = False, fileExports = Some [(''prerender'', JFun 1)]\<rparr>,
      \<lparr>fileType = ''.page.server'', filePath = ''renderer/_default.page.server.js'',
       pageId = ''/renderer/_default'', isDefaultPageFile = True,
       fileExports = Some [(''onBeforePrerender'', JFun 2)]\<rparr>]"

definition exampleCallFn :: "nat \<Rightarrow> jsval list \<Rightarrow> jsval + jsval" where
  "exampleCallFn n args =
     (if n = 0 then Inr (JObj [(''url'', JStr ''/x''), (''pageContext'', JObj [(''a'', JNum 1)])])
      else if n = 1 then Inr (JArr [JObj [(''url'', JStr ''/x''), (''pageContext'', JObj [(''b'', JNum 2)])]])
      else if n = 2 then Inr (JObj [(''globalContext'', JObj [(''lang'', JStr ''en'')])])
      else if n = 3 then Inr (JObj [(''globalContext'', JObj [(''prerenderPageContexts'', JArr [])])])
      else if n = 4 then Inr JNull
      else Inl (JStr ''no such function''))"

definition exampleRoute :: "obj \<Rightarrow> jsval + obj" where
  "exampleRoute pc =
     Inr [(''_pageId'',
           if getProp pc ''url'' = JStr ''/x'' then JStr ''/pages/a''
           else if getProp pc ''url'' = JStr ''/c'' then JStr ''/pages/c''
           else JNull)]"

definition examplePathJoin :: "string list \<Rightarrow> string" where
  "examplePathJoin parts =
     ''/'' @ joinWith ''/'' (filter (\<lambda>w. w \<noteq> []) (concat (map (splitOn (CHR ''/'')) parts)))"

definition exampleCollaborators :: collaborators where
  "exampleCollaborators =
     \<lparr>callFn = exampleCallFn,
      pageRoutes = [\<lparr>routePageId = ''/pages/c'', pageRouteFile = None, filesystemRoute = ''/c''\<rparr>],
      isStaticRoute = (\<lambda>r. True),
      route = exampleRoute,
      loadPageFilesServer = (\<lambda>pc. []),
      prerenderPage = (\<lambda>pc. Inr (''<html>'', Some ''{}'')),
      renderStatic404Page = (\<lambda>g. Some (''<404>'', [])),
      isErrorPage = (\<lambda>pid. False),
      getFileUrl = (\<lambda>u ext flat. if flat then u @ ext else u @ ''/index'' @ ext),
      sep = ''/'',
      pathJoin = examplePathJoin,
      isAbsolute = isAbsolutePosix,
      parallel = 4\<rparr>"

definition exampleGlobalContext :: globalContext where
  "exampleGlobalContext =
     \<lparr>pageFilesAll = examplePageFiles,
      allPageIds = [''/pages/a'', ''/pages/b'', ''/pages/c''],
      noExtraDir = False,
      prerenderPageContexts = [],
      contextProps = [(''_isPreRendering'', JBool True)]\<rparr>"



text \<open>
  A page-server file that excludes its page, \<^verbatim>\<open>export const doNotPrerender = true\<close>,
  and a router that sends every URL to this page.
\<close>

definition exampleExcluded :: pageFile where
  "exampleExcluded =
     \<lparr>fileType = ''.page.server'', filePath = ''pages/e.page.server.js'', pageId = ''/pages/e'',
      isDefaultPageFile = False, fileExports = Some [(''doNotPrerender'', JBool True)]\<rparr>"

definition exampleRouteToExcluded :: "obj \<Rightarrow> jsval + obj" where
  "exampleRouteToExcluded pc = Inr [(''_pageId'', JStr ''/pages/e'')]"




section \<open>The collaborators of the example site\<close>


section \<open>Properties of the hook normalizer\<close>

lemma map_of_setProp: "map_of (setProp k v kvs) k' = (if k' = k then Some v else map_of kvs k')"
  by (induction kvs) auto

lemma setProp_absent: "map_of kvs k = None \<Longrightarrow> setProp k v kvs = kvs @ [(k, v)]"
  by (induction kvs) (auto split: if_splits)

lemma sublist_errMsg1: "sublist f (errMsg1 f @ rest)"
  unfolding errMsg1_def by (simp only: append_assoc sublist_appendI)

lemma sublist_invalidPageContextMsg: "sublist f (invalidPageContextMsg f)"
  unfolding invalidPageContextMsg_def by (rule sublist_appendI)

text \<open>
  The record path of \<^verbatim>\<open>normalize\<close> validates what it returns: the \<^verbatim>\<open>url\<close> is a
  string that starts with a slash and the \<^verbatim>\<open>pageContext\<close> is \<^verbatim>\<open>null\<close> or a plain
  object. Every error of the normalizer is a usage error whose message holds the path of
  the hook's file.
\<close>

lemma normalize_record_checked:
  assumes "isPlainObject el" and "snd (normalize f el) = Inr y"
  shows "hasPropString y ''url'' \<and> startsWith (strOf (getProp (props y) ''url'')) ''/''
       \<and> hasPropObject y ''pageContext''"
  using assms
  by (cases el)
     (auto simp: normalize_def isPlainObject_def hasProp_def hasPropString_def hasPropObject_def
        Let_def getProp_def map_of_setProp split: option.splits if_splits)

lemma normalize_error_names_file:
  "snd (normalize f el) = Inl e \<Longrightarrow> \<exists>msg. e = UsageError msg \<and> sublist f msg"
  by (auto simp: normalize_def Let_def split: if_splits option.splits
        intro: sublist_errMsg1 sublist_invalidPageContextMsg)

text \<open>
  Claim C1. The normalizer is to return only pairs whose \<^verbatim>\<open>url\<close> starts with a slash,
  or to raise a usage error. The string path of \<^verbatim>\<open>normalize\<close> returns before any
  check: the hook result \<^verbatim>\<open>'about'\<close> of \<^verbatim>\<open>pages/a.page.server.js\<close> is normalized
  without an error into one pair whose \<^verbatim>\<open>url\<close> is \<^verbatim>\<open>'about'\<close>. The caller's own
  \<^verbatim>\<open>assert(url.startsWith('/'))\<close> then fails on that pair, an internal error in place
  of the usage error.
\<close>

theorem normalizePrerenderResult_string_url_unchecked:
  "snd (normalizePrerenderResult (JStr ''about'') ''pages/a.page.server.js'') =
     Inr [JObj [(''url'', JStr ''about''), (''pageContext'', JNull)]]
   \<and> snd (addPrerenderResult ''pages/a.page.server.js''
              (JObj [(''url'', JStr ''about''), (''pageContext'', JNull)]) exampleGlobalContext) =
       Inl AssertionFailed"
  by (simp add: normalizePrerenderResult_def normalize_def addPrerenderResult_def getProp_def
        startsWith_def strOf_def)

lemma normalize_effect:
  "fst (normalize f el) =
     (if isPlainObject el \<and> (\<exists>y. snd (normalize f el) = Inr y) \<and> \<not> hasProp el ''pageContext''
      then JObj (props el @ [(''pageContext'', JNull)]) else el)"
  by (cases el)
     (auto simp: normalize_def isPlainObject_def hasProp_def hasPropObject_def Let_def
        setProp_absent getProp_def split: option.splits)

lemma typeof_string: "typeof el = ''string'' \<longleftrightarrow> (\<exists>s. el = JStr s)"
  by (cases el) auto

lemma normalize_accepted:
  assumes "accepted el"
  shows "normalize f el = (leftAs el, Inr (pairOf el))"
proof (cases "typeof el = ''string''")
  case True
  then obtain s where "el = JStr s" by (auto simp: typeof_string)
  then show ?thesis
    by (simp add: normalize_def leftAs_def pairOf_def passesChecks_def isPlainObject_def)
next
  case False
  with assms have p: "passesChecks el" by (simp add: accepted_def)
  then obtain kvs where el: "el = JObj kvs" by (cases el) (auto simp: passesChecks_def isPlainObject_def)
  from p have nokey: "find (\<lambda>key. \<not> (key = ''url'' \<or> key = ''pageContext'')) (objectKeys el) = None"
    by (auto simp: passesChecks_def find_None_iff list_all_iff)
  show ?thesis
  proof (cases "hasProp el ''pageContext''")
    case True
    with p have "hasPropObject el ''pageContext''" by (simp add: passesChecks_def)
    with p True False nokey show ?thesis
      by (simp add: normalize_def passesChecks_def hasPropString_def leftAs_def pairOf_def Let_def)
  next
    case no: False
    then have "map_of kvs ''pageContext'' = None" by (simp add: el hasProp_def)
    then have sp: "setProp ''pageContext'' JNull kvs = kvs @ [(''pageContext'', JNull)]"
      by (rule setProp_absent)
    have "hasPropObject (JObj (kvs @ [(''pageContext'', JNull)])) ''pageContext''"
      using \<open>map_of kvs ''pageContext'' = None\<close>
      by (simp add: hasPropObject_def hasProp_def getProp_def map_add_def)
    with p no False nokey sp show ?thesis
      by (simp add: normalize_def passesChecks_def hasPropString_def leftAs_def pairOf_def Let_def el)
  qed
qed

lemma normalize_rejected:
  assumes "\<not> accepted el"
  shows "fst (normalize f el) = el \<and> (\<exists>msg. snd (normalize f el) = Inl (UsageError msg) \<and> sublist f msg)"
proof -
  have "\<exists>e. snd (normalize f el) = Inl e \<and> fst (normalize f el) = el"
  proof (cases "snd (normalize f el)")
    case (Inl e)
    then show ?thesis
      using normalize_effect [of f el] by simp
  next
    case (Inr y)
    have "accepted el"
      using Inr
      by (cases el)
         (auto simp: normalize_def accepted_def passesChecks_def Let_def find_None_iff list_all_iff
            hasPropObject_def hasProp_def hasPropString_def isPlainObject_def
            split: if_splits option.splits)
    with assms show ?thesis by simp
  qed
  then show ?thesis using normalize_error_names_file [of f el] by auto
qed


lemma normalizeEach_state:
  "fst (normalizeEach f xs) = map leftAs (takeWhile accepted xs) @ dropWhile accepted xs"
proof (induction xs)
  case Nil
  show ?case by simp
next
  case (Cons x xs)
  show ?case
  proof (cases "accepted x")
    case True
    with Cons normalize_accepted [OF True, of f] show ?thesis
      by (auto split: prod.splits sum.splits)
  next
    case False
    from normalize_rejected [OF False, of f] obtain msg where
      "fst (normalize f x) = x" "snd (normalize f x) = Inl (UsageError msg)" by blast
    then have "normalize f x = (x, Inl (UsageError msg))" by (cases "normalize f x") simp
    with False show ?thesis by simp
  qed
qed

lemma normalizeEach_accepted:
  "list_all accepted xs \<Longrightarrow> snd (normalizeEach f xs) = Inr (map pairOf xs)"
proof (induction xs)
  case Nil
  show ?case by simp
next
  case (Cons x xs)
  then have "accepted x" and "snd (normalizeEach f xs) = Inr (map pairOf xs)" by simp_all
  with normalize_accepted [of x f] show ?case by (auto split: prod.splits sum.splits)
qed

lemma normalizeEach_rejected:
  "\<not> list_all accepted xs \<Longrightarrow>
   \<exists>msg. snd (normalizeEach f xs) = Inl (UsageError msg) \<and> sublist f msg"
proof (induction xs)
  case Nil
  then show ?case by simp
next
  case (Cons x xs)
  show ?case
  proof (cases "accepted x")
    case True
    with Cons have "\<exists>msg. snd (normalizeEach f xs) = Inl (UsageError msg) \<and> sublist f msg" by simp
    with normalize_accepted [OF True, of f] show ?thesis by (auto split: prod.splits sum.splits)
  next
    case False
    from normalize_rejected [OF False, of f] obtain msg where
      m: "fst (normalize f x) = x" "snd (normalize f x) = Inl (UsageError msg)" "sublist f msg" by blast
    then have "normalize f x = (x, Inl (UsageError msg))" by (cases "normalize f x") simp
    with m show ?thesis by auto
  qed
qed

text \<open>
  Claim C7, as the code has it. The normalizer reads nothing but its two arguments: the
  state it leaves and what it returns or throws are the functions of the hook result and
  the file path given here. Its only effect is on the hook result. The elements are
  taken in order up to the first one that is not accepted. A record element that is
  reached, passes the checks and has no key \<^verbatim>\<open>pageContext\<close> gets
  \<^verbatim>\<open>pageContext: null\<close> appended in place; every other element is left as it was,
  also the rejected one and all that follow it. When every element is accepted the
  result is the list of their pairs: for a string a new record of the string and
  \<^verbatim>\<open>null\<close>, for a record the record itself as the call leaves it. Else the call
  throws a usage error whose message holds the path of the hook's file.
\<close>

theorem normalizePrerenderResult_effect:
  "fst (normalizePrerenderResult r f) =
     (case r of
        JArr xs \<Rightarrow> JArr (map leftAs (takeWhile accepted xs) @ dropWhile accepted xs)
      | _ \<Rightarrow> leftAs r)
   \<and> (list_all accepted (elements r) \<longrightarrow>
        snd (normalizePrerenderResult r f) = Inr (map pairOf (elements r)))
   \<and> (\<not> list_all accepted (elements r) \<longrightarrow>
        (\<exists>msg. snd (normalizePrerenderResult r f) = Inl (UsageError msg) \<and> sublist f msg))"
proof (cases "\<exists>xs. r = JArr xs")
  case True
  then obtain xs where r: "r = JArr xs" by blast
  obtain ys res where e: "normalizeEach f xs = (ys, res)" by (cases "normalizeEach f xs")
  with normalizeEach_state [of f xs] normalizeEach_accepted [of xs f] normalizeEach_rejected [of xs f]
  show ?thesis by (auto simp: r normalizePrerenderResult_def elements_def)
next
  case False
  then have el: "elements r = [r]" by (cases r) (auto simp: elements_def)
  have n: "normalizePrerenderResult r f =
      (case normalize f r of (x', Inl e) \<Rightarrow> (x', Inl e) | (x', Inr y) \<Rightarrow> (x', Inr [y]))"
    using False by (cases r) (auto simp: normalizePrerenderResult_def)
  have c: "(case r of JArr xs \<Rightarrow> JArr (map leftAs (takeWhile accepted xs) @ dropWhile accepted xs)
      | _ \<Rightarrow> leftAs r) = leftAs r"
    using False by (cases r) auto
  show ?thesis
  proof (cases "accepted r")
    case True
    with normalize_accepted [OF True, of f] show ?thesis by (simp add: n c el)
  next
    case no: False
    from normalize_rejected [OF no, of f] obtain msg where
      m: "fst (normalize f r) = r" "snd (normalize f r) = Inl (UsageError msg)" "sublist f msg" by blast
    then have "normalize f r = (r, Inl (UsageError msg))" by (cases "normalize f r") simp
    moreover from no have "leftAs r = r" by (simp add: leftAs_def accepted_def)
    ultimately show ?thesis using m no by (simp add: n c el)
  qed
qed

theorem normalizePrerenderResult_effect_witness:
  "list_all accepted (elements (JArr [JObj [(''url'', JStr ''/a'')], JStr ''/s'',
        JObj [(''url'', JStr ''/b''), (''pageContext'', JObj [(''x'', JNum 1)])]]))
   \<and> normalizePrerenderResult
        (JArr [JObj [(''url'', JStr ''/a'')], JStr ''/s'',
               JObj [(''url'', JStr ''/b''), (''pageContext'', JObj [(''x'', JNum 1)])]])
        ''pages/a.page.server.js'' =
       (JArr [JObj [(''url'', JStr ''/a''), (''pageContext'', JNull)], JStr ''/s'',
              JObj [(''url'', JStr ''/b''), (''pageContext'', JObj [(''x'', JNum 1)])]],
        Inr [JObj [(''url'', JStr ''/a''), (''pageContext'', JNull)],
             JObj [(''url'', JStr ''/s''), (''pageContext'', JNull)],
             JObj [(''url'', JStr ''/b''), (''pageContext'', JObj [(''x'', JNum 1)])]])
   \<and> \<not> list_all accepted (elements (JArr [JObj [(''url'', JStr ''/a'')], JObj [(''url'', JStr ''b'')],
        JObj [(''url'', JStr ''/c'')]]))
   \<and> fst (normalizePrerenderResult
        (JArr [JObj [(''url'', JStr ''/a'')], JObj [(''url'', JStr ''b'')], JObj [(''url'', JStr ''/c'')]])
        ''pages/a.page.server.js'') =
       JArr [JObj [(''url'', JStr ''/a''), (''pageContext'', JNull)], JObj [(''url'', JStr ''b'')],
             JObj [(''url'', JStr ''/c'')]]
   \<and> (\<exists>msg. snd (normalizePrerenderResult
        (JArr [JObj [(''url'', JStr ''/a'')], JObj [(''url'', JStr ''b'')], JObj [(''url'', JStr ''/c'')]])
        ''pages/a.page.server.js'') = Inl (UsageError msg) \<and> sublist ''pages/a.page.server.js'' msg)"
  using normalizePrerenderResult_effect
      [of "JArr [JObj [(''url'', JStr ''/a'')], JStr ''/s'',
               JObj [(''url'', JStr ''/b''), (''pageContext'', JObj [(''x'', JNum 1)])]]"
          "''pages/a.page.server.js''"]
    normalizePrerenderResult_effect
      [of "JArr [JObj [(''url'', JStr ''/a'')], JObj [(''url'', JStr ''b'')], JObj [(''url'', JStr ''/c'')]]"
          "''pages/a.page.server.js''"]
  by (simp add: elements_def accepted_def passesChecks_def leftAs_def pairOf_def isPlainObject_def
        hasProp_def hasPropString_def hasPropObject_def getProp_def startsWith_def strOf_def
        objectKeys_def prod_eq_iff)

text \<open>
  Claim C7, as stated, fails: the hook result \<^verbatim>\<open>[{url: '/a'}]\<close> is not what it was
  after the call, its record element has been given the key \<^verbatim>\<open>pageContext\<close>.
\<close>

theorem normalizePrerenderResult_mutates_input:
  "fst (normalizePrerenderResult (JArr [JObj [(''url'', JStr ''/a'')]]) ''pages/a.page.server.js'')
     = JArr [JObj [(''url'', JStr ''/a''), (''pageContext'', JNull)]]
   \<and> fst (normalizePrerenderResult (JArr [JObj [(''url'', JStr ''/a'')]]) ''pages/a.page.server.js'')
     \<noteq> JArr [JObj [(''url'', JStr ''/a'')]]"
  by (simp add: normalizePrerenderResult_def normalize_def isPlainObject_def hasProp_def
        hasPropString_def hasPropObject_def getProp_def startsWith_def strOf_def objectKeys_def
        Let_def)


section \<open>Properties of the option check\<close>













section \<open>Properties of the \<^verbatim>\<open>prerender()\<close> hook tasks\<close>










section \<open>Properties of the page context store\<close>

lemma map_of_objectAssign_rev:
  "map_of (objectAssign t s) k = (case map_of (rev s) k of Some v \<Rightarrow> Some v | None \<Rightarrow> map_of t k)"
  unfolding objectAssign_def
  by (induction s arbitrary: t) (auto simp: map_of_setProp map_add_def split: option.splits)

lemma map_of_rev_distinct: "distinct (map fst xs) \<Longrightarrow> map_of (rev xs) = map_of xs"
proof (induction xs)
  case Nil
  show ?case by simp
next
  case (Cons x xs)
  then have "map_of xs (fst x) = None" by (simp add: map_of_eq_None_iff)
  with Cons show ?case by (cases x) (auto simp: fun_eq_iff map_add_def split: option.splits)
qed

lemma map_of_objectAssign:
  "distinct (map fst s) \<Longrightarrow>
   map_of (objectAssign t s) k = (case map_of s k of Some v \<Rightarrow> Some v | None \<Rightarrow> map_of t k)"
  by (simp add: map_of_objectAssign_rev map_of_rev_distinct)

lemma keys_setProp: "fst ` set (setProp k v kvs) = insert k (fst ` set kvs)"
  by (induction kvs) auto

lemma distinct_setProp: "distinct (map fst kvs) \<Longrightarrow> distinct (map fst (setProp k v kvs))"
  by (induction kvs) (auto simp: keys_setProp)

lemma distinct_objectAssign: "distinct (map fst t) \<Longrightarrow> distinct (map fst (objectAssign t s))"
  unfolding objectAssign_def by (induction s arbitrary: t) (auto simp: distinct_setProp)

lemma find_append_None: "find P xs = None \<Longrightarrow> find P (xs @ ys) = find P ys"
  by (induction xs) (auto split: if_splits)

lemma updateFirst_append_None: "find P xs = None \<Longrightarrow> updateFirst P f (xs @ ys) = xs @ updateFirst P f ys"
  by (induction xs) (auto split: if_splits)


lemma addPrerenderResult_new:
  assumes "startsWith u ''/''"
    and "find (\<lambda>pc. getProp pc ''url'' = JStr u) (prerenderPageContexts g) = None"
    and "map_of pc1 ''url'' = None"
  shows "addPrerenderResult f1 (JObj [(''url'', JStr u), (''pageContext'', JObj pc1)]) g =
     (g\<lparr>prerenderPageContexts := prerenderPageContexts g @
         [objectAssign (objectAssign (contextProps g) [(''_prerenderSourceFile'', JStr f1), (''url'', JStr u)])
            (objectAssign [(''_pageContextAlreadyProvidedByPrerenderHook'', JBool True)] pc1)]\<rparr>, Inr ())"
proof -
  have "getProp (objectAssign (contextProps g) [(''_prerenderSourceFile'', JStr f1), (''url'', JStr u)]) ''url'' = JStr u"
    by (simp add: getProp_def map_of_objectAssign_rev)
  with assms show ?thesis
    by (simp add: addPrerenderResult_def getProp_def [of "[(''url'', JStr u), (''pageContext'', JObj pc1)]"]
        strOf_def isPlainObject_def Let_def updateFirst_append_None)
qed

lemma addPrerenderResult_found:
  assumes "startsWith u ''/''"
    and "find (\<lambda>pc. getProp pc ''url'' = JStr u) pcs = None"
    and "getProp ctx ''url'' = JStr u"
    and "prerenderPageContexts g = pcs @ [ctx]"
  shows "addPrerenderResult f2 (JObj [(''url'', JStr u), (''pageContext'', JObj pc2)]) g =
     (g\<lparr>prerenderPageContexts := pcs @
         [objectAssign ctx (objectAssign [(''_pageContextAlreadyProvidedByPrerenderHook'', JBool True)] pc2)]\<rparr>, Inr ())"
  using assms
  by (simp add: addPrerenderResult_def getProp_def [of "[(''url'', JStr u), (''pageContext'', JObj pc2)]"]
        strOf_def isPlainObject_def Let_def updateFirst_append_None find_append_None)


text \<open>
  Claim C2, as the code has it. Two hooks, of the files \<open>f1\<close> and then \<open>f2\<close>,
  contribute the same new URL with the records \<open>pc1\<close> and \<open>pc2\<close> (the first one
  without a key \<^verbatim>\<open>url\<close>). Then there is one page context for the URL. It holds the
  keys of both records, the later record winning, over the keys of the global context, and
  its \<^verbatim>\<open>_prerenderSourceFile\<close> is the file of the first hook unless one of the records
  has that key itself: the later hook does not overwrite the provenance.
\<close>

theorem addPrerenderResult_same_url_twice:
  assumes "startsWith u ''/''"
    and "find (\<lambda>pc. getProp pc ''url'' = JStr u) (prerenderPageContexts g) = None"
    and "distinct (map fst pc1)" and "distinct (map fst pc2)"
    and "map_of pc1 ''url'' = None"
    and "addPrerenderResult f1 (JObj [(''url'', JStr u), (''pageContext'', JObj pc1)]) g = (g1, r1)"
    and "addPrerenderResult f2 (JObj [(''url'', JStr u), (''pageContext'', JObj pc2)]) g1 = (g2, r2)"
  shows "r1 = Inr () \<and> r2 = Inr () \<and>
     (\<exists>ctx. prerenderPageContexts g2 = prerenderPageContexts g @ [ctx] \<and>
        (\<forall>k. map_of ctx k =
           (case map_of pc2 k of Some v \<Rightarrow> Some v
            | None \<Rightarrow>
               if k = ''_pageContextAlreadyProvidedByPrerenderHook'' then Some (JBool True)
               else (case map_of pc1 k of Some v \<Rightarrow> Some v
                     | None \<Rightarrow>
                        if k = ''url'' then Some (JStr u)
                        else if k = ''_prerenderSourceFile'' then Some (JStr f1)
                        else map_of (contextProps g) k))))"
proof -
  let ?flag = "[(''_pageContextAlreadyProvidedByPrerenderHook'', JBool True)]"
  let ?new = "objectAssign (contextProps g) [(''_prerenderSourceFile'', JStr f1), (''url'', JStr u)]"
  let ?ctx1 = "objectAssign ?new (objectAssign ?flag pc1)"
  let ?ctx2 = "objectAssign ?ctx1 (objectAssign ?flag pc2)"
  have look: "map_of (objectAssign t (objectAssign ?flag pc)) k =
      (case map_of pc k of Some v \<Rightarrow> Some v
       | None \<Rightarrow> if k = ''_pageContextAlreadyProvidedByPrerenderHook'' then Some (JBool True) else map_of t k)"
    if "distinct (map fst pc)" for t pc k
  proof -
    have "distinct (map fst (objectAssign ?flag pc))" by (rule distinct_objectAssign) simp
    then show ?thesis
      using that by (simp add: map_of_objectAssign split: option.splits)
  qed
  have inner: "map_of ?new k =
      (if k = ''url'' then Some (JStr u)
       else if k = ''_prerenderSourceFile'' then Some (JStr f1)
       else map_of (contextProps g) k)" for k
    by (simp add: map_of_objectAssign_rev)
  from assms(1,2,5,6) have g1: "g1 = g\<lparr>prerenderPageContexts := prerenderPageContexts g @ [?ctx1]\<rparr>"
    and r1: "r1 = Inr ()"
    by (simp_all add: addPrerenderResult_new)
  have "map_of ?ctx1 ''url'' = Some (JStr u)"
    using assms(5) by (simp add: look [OF assms(3)] inner)
  then have url1: "getProp ?ctx1 ''url'' = JStr u" by (simp add: getProp_def)
  have pcs1: "prerenderPageContexts g1 = prerenderPageContexts g @ [?ctx1]" by (simp add: g1)
  from assms(7) addPrerenderResult_found [OF assms(1,2) url1 pcs1, of f2 pc2]
  have g2: "g2 = g1\<lparr>prerenderPageContexts := prerenderPageContexts g @ [?ctx2]\<rparr>" and r2: "r2 = Inr ()"
    by simp_all
  have "map_of ?ctx2 k =
           (case map_of pc2 k of Some v \<Rightarrow> Some v
            | None \<Rightarrow>
               if k = ''_pageContextAlreadyProvidedByPrerenderHook'' then Some (JBool True)
               else (case map_of pc1 k of Some v \<Rightarrow> Some v
                     | None \<Rightarrow>
                        if k = ''url'' then Some (JStr u)
                        else if k = ''_prerenderSourceFile'' then Some (JStr f1)
                        else map_of (contextProps g) k))" for k
    by (simp add: look [OF assms(4)] look [OF assms(3)] inner split: option.splits)
  with g2 r1 r2 show ?thesis by simp
qed

theorem addPrerenderResult_same_url_twice_witness:
  "startsWith ''/x'' ''/''
   \<and> find (\<lambda>pc. getProp pc ''url'' = JStr ''/x'') (prerenderPageContexts exampleGlobalContext) = None
   \<and> prerenderPageContexts
        (fst (addPrerenderResult ''pages/b.page.server.js''
               (JObj [(''url'', JStr ''/x''), (''pageContext'', JObj [(''b'', JNum 2)])])
               (fst (addPrerenderResult ''pages/a.page.server.js''
                      (JObj [(''url'', JStr ''/x''), (''pageContext'', JObj [(''a'', JNum 1)])])
                      exampleGlobalContext)))) =
       [[(''_isPreRendering'', JBool True),
         (''_prerenderSourceFile'', JStr ''pages/a.page.server.js''),
         (''url'', JStr ''/x''),
         (''_pageContextAlreadyProvidedByPrerenderHook'', JBool True),
         (''a'', JNum 1), (''b'', JNum 2)]]"
  using addPrerenderResult_same_url_twice
    [of "''/x''" exampleGlobalContext "[(''a'', JNum 1)]" "[(''b'', JNum 2)]" "''pages/a.page.server.js''"
        "fst (addPrerenderResult ''pages/a.page.server.js''
               (JObj [(''url'', JStr ''/x''), (''pageContext'', JObj [(''a'', JNum 1)])])
               exampleGlobalContext)"
        "snd (addPrerenderResult ''pages/a.page.server.js''
               (JObj [(''url'', JStr ''/x''), (''pageContext'', JObj [(''a'', JNum 1)])])
               exampleGlobalContext)"
        "''pages/b.page.server.js''"
        "fst (addPrerenderResult ''pages/b.page.server.js''
               (JObj [(''url'', JStr ''/x''), (''pageContext'', JObj [(''b'', JNum 2)])])
               (fst (addPrerenderResult ''pages/a.page.server.js''
                      (JObj [(''url'', JStr ''/x''), (''pageContext'', JObj [(''a'', JNum 1)])])
                      exampleGlobalContext)))"
        "snd (addPrerenderResult ''pages/b.page.server.js''
               (JObj [(''url'', JStr ''/x''), (''pageContext'', JObj [(''b'', JNum 2)])])
               (fst (addPrerenderResult ''pages/a.page.server.js''
                      (JObj [(''url'', JStr ''/x''), (''pageContext'', JObj [(''a'', JNum 1)])])
                      exampleGlobalContext)))"]
  by (simp add: addPrerenderResult_def exampleGlobalContext_def getProp_def startsWith_def strOf_def
        isPlainObject_def objectAssign_def Let_def)

text \<open>
  Claim C2, as stated, fails on the example site: after the hooks of
  \<^verbatim>\<open>pages/a.page.server.js\<close> and then \<^verbatim>\<open>pages/b.page.server.js\<close> have both
  contributed \<^verbatim>\<open>/x\<close>, the provenance of the page context is still the first file.
\<close>

theorem callPrerenderHooks_provenance_counterexample:
  "prerenderPageContexts (fst (fst (callPrerenderHooks exampleCollaborators exampleGlobalContext []))) =
       [[(''_isPreRendering'', JBool True),
         (''_prerenderSourceFile'', JStr ''pages/a.page.server.js''),
         (''url'', JStr ''/x''),
         (''_pageContextAlreadyProvidedByPrerenderHook'', JBool True),
         (''a'', JNum 1), (''b'', JNum 2)]]
   \<and> map (\<lambda>pc. getProp pc ''_prerenderSourceFile'')
         (prerenderPageContexts (fst (fst (callPrerenderHooks exampleCollaborators exampleGlobalContext []))))
       \<noteq> [JStr ''pages/b.page.server.js'']"
  by (simp add: callPrerenderHooks_def prerenderHookTask_def exampleCollaborators_def
        exampleGlobalContext_def examplePageFiles_def exampleCallFn_def exportOf_def invoke_def
        normalizePrerenderResult_def normalize_def addPrerenderResult_def getProp_def startsWith_def
        strOf_def isPlainObject_def isCallable_def hasProp_def hasPropString_def hasPropObject_def
        objectKeys_def objectAssign_def Let_def)


section \<open>Properties of the \<^verbatim>\<open>onBeforePrerender()\<close> hook\<close>



text \<open>
  The object of a global context holds the four typed keys with the values of the record,
  and reading a global context back from it gives the record, without the keys of
  \<open>contextProps\<close> that the typed keys hide.
\<close>

lemma globalObject_typed_keys:
  "getProp (globalObject g) ''_pageFilesAll'' = JArr (map encodePageFile (pageFilesAll g))
   \<and> getProp (globalObject g) ''_allPageIds'' = JArr (map JStr (allPageIds g))
   \<and> getProp (globalObject g) ''_noExtraDir'' = JBool (noExtraDir g)
   \<and> getProp (globalObject g) ''prerenderPageContexts'' = JArr (map JObj (prerenderPageContexts g))"
  by (simp add: globalObject_def objectAssign_def getProp_def map_of_setProp)

lemma decodeEach_map: "(\<And>x. dec (enc x) = Some x) \<Longrightarrow> decodeEach dec (map enc xs) = Some xs"
  by (induction xs) simp_all

lemma decodePageFile_encodePageFile: "decodePageFile (encodePageFile p) = Some p"
  by (cases "fileExports p")
     (simp_all add: decodePageFile_def encodePageFile_def asObject_def asString_def asBool_def
        decodeExports_def getProp_def)

lemma filter_setProp_internal:
  "k \<in> set ks \<Longrightarrow>
   filter (\<lambda>kv. fst kv \<notin> set ks) (setProp k v kvs) = filter (\<lambda>kv. fst kv \<notin> set ks) kvs"
  by (induction kvs) auto

lemma decodeGlobal_globalObject:
  "decodeGlobal (globalObject g) =
     Some (g\<lparr>contextProps := filter (\<lambda>kv. fst kv \<notin> set internalKeys) (contextProps g)\<rparr>)"
proof -
  have mem: "''_pageFilesAll'' \<in> set internalKeys" "''_allPageIds'' \<in> set internalKeys"
    "''_noExtraDir'' \<in> set internalKeys" "''prerenderPageContexts'' \<in> set internalKeys"
    by (simp_all add: internalKeys_def)
  have rest: "filter (\<lambda>kv. fst kv \<notin> set internalKeys) (globalObject g) =
      filter (\<lambda>kv. fst kv \<notin> set internalKeys) (contextProps g)"
    by (simp add: globalObject_def objectAssign_def filter_setProp_internal mem)
  show ?thesis
    unfolding decodeGlobal_def
    by (simp add: globalObject_typed_keys rest decodeArray_def asArray_def decodeEach_map
        decodePageFile_encodePageFile asString_def asBool_def asObject_def)
qed








section \<open>Properties of the coverage validator\<close>

lemma sublist_contradictionMsg:
  "sublist src (contradictionMsg src u path) \<and> sublist path (contradictionMsg src u path)"
  unfolding contradictionMsg_def sublist_def
  by (intro conjI,
      (rule exI [of _ "''Your `prerender()` hook defined in ''"], rule exI, simp),
      (rule exI [of _ "''Your `prerender()` hook defined in '' @ src @ '' returns the URL `'' @ u
     @ ''` which matches the page with `''"], rule exI, simp))

lemma warnContradictory_returns:
  "warnContradictoryNoPrerenderList ids dnp = Inr () \<Longrightarrow> fst ` set ids \<inter> fst ` set dnp = {}"
proof (induction ids)
  case Nil
  show ?case by simp
next
  case (Cons entry entries)
  from Cons.prems have none: "find (\<lambda>p. fst p = fst entry) dnp = None"
    and rest: "warnContradictoryNoPrerenderList entries dnp = Inr ()"
    by (auto split: option.splits if_splits)
  from none have "fst entry \<notin> fst ` set dnp" by (auto simp: find_None_iff)
  with Cons.IH [OF rest] show ?case by auto
qed

lemma warnContradictory_throws:
  assumes "fst ` set ids \<inter> fst ` set dnp \<noteq> {}"
    and "\<forall>entry \<in> set ids. fst entry \<in> fst ` set dnp \<longrightarrow> truthy (getProp (snd entry) ''_prerenderSourceFile'')"
  shows "\<exists>entry \<in> set ids. \<exists>hit \<in> set dnp. fst hit = fst entry \<and>
           warnContradictoryNoPrerenderList ids dnp =
             Inl (UsageError (contradictionMsg (strOf (getProp (snd entry) ''_prerenderSourceFile''))
                    (strOf (getProp (snd entry) ''url'')) (snd hit)))"
  using assms
proof (induction ids)
  case Nil
  then show ?case by simp
next
  case (Cons entry entries)
  show ?case
  proof (cases "find (\<lambda>p. fst p = fst entry) dnp")
    case None
    then have "fst entry \<notin> fst ` set dnp" by (auto simp: find_None_iff)
    with Cons.prems have "fst ` set entries \<inter> fst ` set dnp \<noteq> {}"
      and "\<forall>entry \<in> set entries. fst entry \<in> fst ` set dnp \<longrightarrow> truthy (getProp (snd entry) ''_prerenderSourceFile'')"
      by auto
    from Cons.IH [OF this] None show ?thesis by auto
  next
    case (Some hit)
    then have hit: "hit \<in> set dnp" "fst hit = fst entry"
      by (auto simp: find_Some_iff in_set_conv_nth)
    then have "fst entry \<in> fst ` set dnp" by force
    with Cons.prems(2) have "truthy (getProp (snd entry) ''_prerenderSourceFile'')" by simp
    with Some hit show ?thesis by auto
  qed
qed


text \<open>
  Claim C3. A page context that the static routes produced has no hook file
  (\<^verbatim>\<open>_prerenderSourceFile\<close> is \<^verbatim>\<open>null\<close>, line 256). When the page id that the router
  gave it is in the exclusion list, the validator does not throw the usage error that names
  the two files: its \<^verbatim>\<open>assert(_prerenderSourceFile)\<close> (line 369) fails first. The run
  below reaches this. The site has one page-server file, which excludes the page
  \<^verbatim>\<open>/pages/e\<close>; the page \<^verbatim>\<open>/pages/c\<close> has the static route \<^verbatim>\<open>/c\<close>; and the router
  sends \<^verbatim>\<open>/c\<close> to the page \<^verbatim>\<open>/pages/e\<close>. The document of \<^verbatim>\<open>/c\<close> is rendered, and
  the contradiction check ends the run with the internal error.
\<close>

theorem warnContradictoryNoPrerenderList_static_route_conflict:
  "warnContradictoryNoPrerenderList
       [(''/pages/e'', [(''_prerenderSourceFile'', JNull), (''url'', JStr ''/c'')])]
       [(''/pages/e'', ''pages/e.page.server.js'')] = Inl AssertionFailed
   \<and> callPrerenderHooks (exampleCollaborators\<lparr>route := exampleRouteToExcluded\<rparr>)
         (exampleGlobalContext\<lparr>pageFilesAll := [exampleExcluded]\<rparr>) [] =
       ((exampleGlobalContext\<lparr>pageFilesAll := [exampleExcluded]\<rparr>,
         [(''/pages/e'', ''pages/e.page.server.js'')]), Inr ())
   \<and> prerenderPageContexts
         (fst (handlePagesWithStaticRoutes (exampleCollaborators\<lparr>route := exampleRouteToExcluded\<rparr>)
                 (exampleGlobalContext\<lparr>pageFilesAll := [exampleExcluded]\<rparr>)
                 [(''/pages/e'', ''pages/e.page.server.js'')])) =
       [[(''_isPreRendering'', JBool True), (''_prerenderSourceFile'', JNull), (''url'', JStr ''/c''),
         (''routeParams'', JObj []), (''_pageId'', JStr ''/pages/c'')]]
   \<and> prerender (exampleCollaborators\<lparr>route := exampleRouteToExcluded\<rparr>) [] JUndefined False
         ''/srv/app'' (exampleGlobalContext\<lparr>pageFilesAll := [exampleExcluded]\<rparr>) [] =
       (([], [Rendered ''/c'', ContradictionChecked]), Inl AssertionFailed)"
  by (simp add: prerender_def checkOutdatedOptions_def assertWarning_def
        callPrerenderHooks_def prerenderHookTask_def exportOf_def exampleExcluded_def
        handlePagesWithStaticRoutes_def staticRouteStart_def staticRouteFinish_def
        callOnBeforePrerenderHook_def hooks_def pageFilesServerDefault_def
        globalObject_def decodeGlobal_def decodeArray_def decodePageFile_def
        decodeExports_def asArray_def asString_def asBool_def asObject_def encodePageFile_def
        internalKeys_def
        routeAndPrerender_def routeAndPrerenderTask_def exampleRouteToExcluded_def
        exampleCollaborators_def exampleGlobalContext_def
        getProp_def startsWith_def strOf_def isPlainObject_def isCallable_def hasProp_def
        hasPropNull_def hasPropString_def hasPropObject_def objectKeys_def objectAssign_def Let_def)


section \<open>Static routes with the same URL\<close>

text \<open>
  Two pages have the static route \<^verbatim>\<open>/c\<close>. With a ceiling of one the second task finds
  the page context of the first and adds none; with a ceiling of two it starts while the
  first awaits its load, and both push a page context for \<^verbatim>\<open>/c\<close>.
\<close>

lemma handlePagesWithStaticRoutes_same_url:
  "map (\<lambda>pc. getProp pc ''_pageId'')
     (prerenderPageContexts (fst (handlePagesWithStaticRoutes
        (exampleCollaborators\<lparr>pageRoutes :=
           [\<lparr>routePageId = ''/pages/c'', pageRouteFile = None, filesystemRoute = ''/c''\<rparr>,
            \<lparr>routePageId = ''/pages/c2'', pageRouteFile = Some (JStr ''/c''), filesystemRoute = ''/c2''\<rparr>],
           parallel := 1\<rparr>)
        exampleGlobalContext []))) = [JStr ''/pages/c'']
   \<and> map (\<lambda>pc. getProp pc ''_pageId'')
     (prerenderPageContexts (fst (handlePagesWithStaticRoutes
        (exampleCollaborators\<lparr>pageRoutes :=
           [\<lparr>routePageId = ''/pages/c'', pageRouteFile = None, filesystemRoute = ''/c''\<rparr>,
            \<lparr>routePageId = ''/pages/c2'', pageRouteFile = Some (JStr ''/c''), filesystemRoute = ''/c2''\<rparr>],
           parallel := 2\<rparr>)
        exampleGlobalContext []))) = [JStr ''/pages/c'', JStr ''/pages/c2'']"
  by (simp add: handlePagesWithStaticRoutes_def staticRouteStart_def staticRouteFinish_def
        exampleCollaborators_def exampleGlobalContext_def getProp_def startsWith_def strOf_def
        objectAssign_def)


section \<open>The order of the events of a run\<close>

lemma runAll_extends:
  assumes step: "\<And>x s s' r. task x s = (s', r) \<Longrightarrow> \<exists>new. ev s' = ev s @ new \<and> list_all P new"
  shows "runAll task xs s = (s', r) \<Longrightarrow> \<exists>new. ev s' = ev s @ new \<and> list_all P new"
proof (induction xs arbitrary: s)
  case Nil
  then show ?case by simp
next
  case (Cons x xs)
  obtain s1 r1 where t: "task x s = (s1, r1)" by (cases "task x s")
  from step [OF t] obtain new1 where n1: "ev s1 = ev s @ new1" "list_all P new1" by blast
  show ?case
  proof (cases r1)
    case (Inl e)
    with Cons.prems t have "s' = s1" by simp
    with n1 show ?thesis by blast
  next
    case (Inr u)
    with Cons.prems t have "runAll task xs s1 = (s', r)" by simp
    from Cons.IH [OF this] obtain new2 where "ev s' = ev s1 @ new2" "list_all P new2" by blast
    with n1 have "ev s' = ev s @ (new1 @ new2)" "list_all P (new1 @ new2)" by simp_all
    then show ?thesis by blast
  qed
qed

lemma routeAndPrerenderTask_events:
  "routeAndPrerenderTask c g pc s = (s', r) \<Longrightarrow>
   \<exists>new. snd (snd s') = snd (snd s) @ new \<and> list_all isRendered new"
  by (cases s)
     (auto simp: routeAndPrerenderTask_def Let_def isRendered_def split: sum.splits if_splits)

lemma routeAndPrerender_events:
  "routeAndPrerender c g s = (s', r) \<Longrightarrow>
   \<exists>new. snd (snd s') = snd (snd s) @ new \<and> list_all isRendered new"
  unfolding routeAndPrerender_def
  by (rule runAll_extends [where ev = "\<lambda>s. snd (snd s)"], rule routeAndPrerenderTask_events)

lemma writeJob_events:
  "writeJob c u pc ext content root outDir flat sink events = (events', r) \<Longrightarrow>
   \<exists>new. events' = events @ new \<and> list_all isWrite new"
  by (auto simp: writeJob_def Let_def isWrite_def split: sum.splits if_splits)

lemma writeHtmlFile_events:
  assumes "writeHtmlFile c root outDir dnp sink hf events = (events', r)"
  shows "\<exists>new. events' = events @ new \<and> list_all isWrite new"
proof (cases "\<not> startsWith (url hf) ''/'' \<or> find (\<lambda>p. Some (fst p) = htmlPageId hf) dnp \<noteq> None")
  case True
  with assms have "events' = events" by (auto simp: writeHtmlFile_def split: if_splits)
  then show ?thesis by simp
next
  case False
  obtain ev1 r1 where j1: "writeJob c (url hf) (pageContext hf) ''.html'' (htmlString hf) root outDir
                (doNotCreateExtraDirectory hf) sink events = (ev1, r1)"
    by (cases "writeJob c (url hf) (pageContext hf) ''.html'' (htmlString hf) root outDir
                (doNotCreateExtraDirectory hf) sink events")
  from writeJob_events [OF j1] obtain new1 where n1: "ev1 = events @ new1" "list_all isWrite new1" by blast
  show ?thesis
  proof (cases "\<exists>u. r1 = Inr u \<and> pageContextSerialized hf \<noteq> None")
    case no: False
    with False assms j1 have "events' = ev1"
      by (cases r1; cases "pageContextSerialized hf") (auto simp: writeHtmlFile_def)
    with n1 show ?thesis by blast
  next
    case True
    then obtain ser where ser: "pageContextSerialized hf = Some ser" and r1: "\<exists>u. r1 = Inr u" by auto
    with False assms j1 have "writeJob c (url hf) (pageContext hf) ''.pageContext.json'' ser root outDir
                    (doNotCreateExtraDirectory hf) sink ev1 = (events', r)"
      by (auto simp: writeHtmlFile_def)
    from writeJob_events [OF this] obtain new2 where "events' = ev1 @ new2" "list_all isWrite new2" by blast
    with n1 have "events' = events @ (new1 @ new2)" "list_all isWrite (new1 @ new2)" by simp_all
    then show ?thesis by blast
  qed
qed

lemma writeAll_events:
  "runAll (writeHtmlFile c root outDir dnp sink) hfs events = (events', r) \<Longrightarrow>
   \<exists>new. events' = events @ new \<and> list_all isWrite new"
  by (rule runAll_extends [where ev = "\<lambda>s. s"], rule writeHtmlFile_events)

lemma prerender404Page_events:
  "prerender404Page c g (hfs, events) = (hfs', events') \<Longrightarrow>
   events' = events \<or> events' = events @ [Rendered ''/404'']"
  by (auto simp: prerender404Page_def split: if_splits option.splits)


lemma example_hooks:
  "callPrerenderHooks exampleCollaborators exampleGlobalContext [] =
     ((exampleGlobalContext\<lparr>prerenderPageContexts :=
        [[(''_isPreRendering'', JBool True),
          (''_prerenderSourceFile'', JStr ''pages/a.page.server.js''),
          (''url'', JStr ''/x''),
          (''_pageContextAlreadyProvidedByPrerenderHook'', JBool True),
          (''a'', JNum 1), (''b'', JNum 2)]]\<rparr>, []), Inr ())"
  by (simp add: callPrerenderHooks_def prerenderHookTask_def exampleCollaborators_def
        exampleGlobalContext_def examplePageFiles_def exampleCallFn_def exportOf_def invoke_def
        normalizePrerenderResult_def normalize_def addPrerenderResult_def getProp_def startsWith_def
        strOf_def isPlainObject_def isCallable_def hasProp_def hasPropString_def hasPropObject_def
        objectKeys_def objectAssign_def Let_def)

lemma example_run:
  "prerender exampleCollaborators [] JUndefined False ''/srv/app'' exampleGlobalContext [] =
     (([missingMsg ''/pages/b''],
       [Rendered ''/x'', Rendered ''/c'', ContradictionChecked, Rendered ''/404'',
        FileWritten ''/srv/app/dist/client/x/index.html'' ''<html>'',
        FileWritten ''/srv/app/dist/client/x.pageContext.json'' ''{}'',
        FileWritten ''/srv/app/dist/client/c/index.html'' ''<html>'',
        FileWritten ''/srv/app/dist/client/c.pageContext.json'' ''{}'',
        FileWritten ''/srv/app/dist/client/404.html'' ''<404>'',
        MissingPagesChecked]),
      Inr ())"
  unfolding prerender_def example_hooks
  by (simp add: checkOutdatedOptions_def assertWarning_def
        handlePagesWithStaticRoutes_def staticRouteStart_def staticRouteFinish_def
        callOnBeforePrerenderHook_def hooks_def pageFilesServerDefault_def
        globalObject_def decodeGlobal_def decodeArray_def decodePageFile_def
        decodeExports_def asArray_def asString_def asBool_def asObject_def encodePageFile_def
        internalKeys_def
        routeAndPrerender_def routeAndPrerenderTask_def exampleRoute_def
        prerender404Page_def writeHtmlFile_def writeJob_def examplePathJoin_def
        warnMissingPages_def isAbsolutePosix_def hasPropNull_def
        exampleCollaborators_def
        exampleGlobalContext_def examplePageFiles_def exampleCallFn_def exportOf_def invoke_def
        getProp_def startsWith_def
        strOf_def isPlainObject_def isCallable_def hasProp_def hasPropString_def hasPropObject_def
        isObjectWithKeys_def objectKeys_def objectAssign_def Let_def)


text \<open>
  Claim C4, as the code has it. In a run that returns, the events are: the documents
  rendered by the routing phase; the contradiction check; the rendering of the 404
  fallback, if there is one; the writes (or calls of the sink); and, last, the
  missing-coverage check. So the missing-coverage check runs after all rendering and
  writing, and the contradiction check runs after the rendering of the pages, and before
  the 404 fallback is rendered and before anything is written.
\<close>

theorem prerender_order:
  assumes "prerender c opts sink partial root g printed = ((printed', events), Inr ())"
  shows "\<exists>rendered fallback written.
           events = rendered @ [ContradictionChecked] @ fallback @ written @ [MissingPagesChecked]
           \<and> list_all isRendered rendered
           \<and> (fallback = [] \<or> fallback = [Rendered ''/404''])
           \<and> list_all isWrite written"
proof -
  from assms obtain dnp g3 s4 hfs ev0 ev1 where
    p4: "routeAndPrerender c g3 ([], [], []) = (s4, Inr ())"
    and p5: "prerender404Page c g3 (fst s4, snd (snd s4) @ [ContradictionChecked]) = (hfs, ev0)"
    and wr: "runAll (writeHtmlFile c root ''dist/'' dnp sink) hfs ev0 = (ev1, Inr ())"
    and ev: "events = ev1 @ [MissingPagesChecked]"
    unfolding prerender_def by (auto split: prod.splits sum.splits option.splits)
  from routeAndPrerender_events [OF p4] obtain rendered where
    r: "snd (snd s4) = rendered" "list_all isRendered rendered" by auto
  from prerender404Page_events [OF p5] r obtain fallback where
    f: "ev0 = rendered @ [ContradictionChecked] @ fallback" "fallback = [] \<or> fallback = [Rendered ''/404'']"
    by auto
  from writeAll_events [OF wr] obtain written where
    w: "ev1 = ev0 @ written" "list_all isWrite written" by blast
  from ev f w r show ?thesis by auto
qed

theorem prerender_order_witness:
  "prerender exampleCollaborators [] JUndefined False ''/srv/app'' exampleGlobalContext [] =
     (([missingMsg ''/pages/b''],
       [Rendered ''/x'', Rendered ''/c'', ContradictionChecked, Rendered ''/404'',
        FileWritten ''/srv/app/dist/client/x/index.html'' ''<html>'',
        FileWritten ''/srv/app/dist/client/x.pageContext.json'' ''{}'',
        FileWritten ''/srv/app/dist/client/c/index.html'' ''<html>'',
        FileWritten ''/srv/app/dist/client/c.pageContext.json'' ''{}'',
        FileWritten ''/srv/app/dist/client/404.html'' ''<404>'',
        MissingPagesChecked]),
      Inr ())
   \<and> (\<exists>rendered fallback written.
         [Rendered ''/x'', Rendered ''/c'', ContradictionChecked, Rendered ''/404'',
          FileWritten ''/srv/app/dist/client/x/index.html'' ''<html>'',
          FileWritten ''/srv/app/dist/client/x.pageContext.json'' ''{}'',
          FileWritten ''/srv/app/dist/client/c/index.html'' ''<html>'',
          FileWritten ''/srv/app/dist/client/c.pageContext.json'' ''{}'',
          FileWritten ''/srv/app/dist/client/404.html'' ''<404>'',
          MissingPagesChecked]
           = rendered @ [ContradictionChecked] @ fallback @ written @ [MissingPagesChecked]
         \<and> list_all isRendered rendered
         \<and> (fallback = [] \<or> fallback = [Rendered ''/404''])
         \<and> list_all isWrite written)"
  using prerender_order [OF example_run] example_run by blast

text \<open>
  Claim C4, as stated, fails on the example site: the run returns, and its contradiction
  check comes before the rendering of the 404 document and before every write.
\<close>

theorem prerender_contradiction_check_early:
  "snd (prerender exampleCollaborators [] JUndefined False ''/srv/app'' exampleGlobalContext []) = Inr ()
   \<and> \<not> checksAfterAllOutput
         (snd (fst (prerender exampleCollaborators [] JUndefined False ''/srv/app'' exampleGlobalContext [])))"
  by (simp add: example_run isCheck_def isRendered_def isWrite_def)



section \<open>The warning for pages that are not covered\<close>


lemma inj_missingMsg: "missingMsg p = missingMsg q \<Longrightarrow> p = q"
  unfolding missingMsg_def by simp



end
